theory Spec2Isabelle
  imports Main "HOL-Library.Word"
begin

unbundle bit_operations_syntax

section \<open>Data model of the SASL module\<close>

text \<open>
  A \<open>struct Client *\<close> is an address; the null pointer is address 0. The client
  structures themselves live in a store indexed by address (\<open>clients\<close> below).
\<close>

type_synonym cptr = nat

abbreviation (input) NULL :: cptr where
  "NULL \<equiv> 0"

text \<open>Limits of the module (the three defines at the top of the file).\<close>

definition SASL_MAX_SESSIONS :: nat where
  "SASL_MAX_SESSIONS = 256"

definition SASL_MAX_MESSAGES :: "32 word" where
  "SASL_MAX_MESSAGES = 20"

definition SASL_MAX_FAILURES :: "32 word" where
  "SASL_MAX_FAILURES = 3"

text \<open>\<open>CAP_SASL\<close> is \<open>(1 << 9)\<close>.\<close>

definition CAP_SASL :: "32 word" where
  "CAP_SASL = push_bit 9 1"

text \<open>
  \<open>struct sasl_session\<close>. The two \<open>unsigned int\<close> counters are 32-bit words, the
  \<open>uintmax_t\<close> time stamp a 64-bit word. A C string is the list of its characters
  before the terminating NUL, so \<open>agent[0] == '\\0'\<close> is \<open>agent = []\<close>.
\<close>

record sasl_session =
  client :: cptr
  agent :: string
  messages :: "32 word"
  failures :: "32 word"
  start_time :: "64 word"
  complete :: bool

text \<open>What \<open>memset(session, 0, sizeof(*session))\<close> leaves in a slot.\<close>

definition zero_session :: sasl_session where
  "zero_session =
     \<lparr>client = NULL, agent = [], messages = 0, failures = 0, start_time = 0,
      complete = False\<rparr>"

text \<open>
  The fields of the host's \<open>struct Client\<close> that the module reads or writes.
  The structure is declared in the host's client.h, which is not part of the module;
  the macros on it are modelled by fields:
  \<open>MyConnect(x)\<close> is \<open>connection\<close>, \<open>HasFlag(x, FLAGS_SERVICE)\<close> is
  \<open>flag_service\<close>, \<open>IsServer(x)\<close> is \<open>is_server\<close>, and
  \<open>HasCap(x, c)\<close> tests the bits of \<open>cap_active\<close>.
\<close>

record Client =
  name :: string
  id_c :: string
  username :: string
  host :: string
  sockhost :: string
  account :: string
  cap_active :: "32 word"
  connection :: bool
  flag_service :: bool
  is_server :: bool

definition HasCap :: "Client \<Rightarrow> 32 word \<Rightarrow> bool" where
  "HasCap x c = (cap_active x AND c \<noteq> 0)"

definition MyConnect :: "Client \<Rightarrow> bool" where
  "MyConnect x = connection x"

text \<open>
  The sizes of the character arrays of the host's headers. \<open>IDLEN\<close> gives the size
  of \<open>agent\<close> (\<open>IDLEN + 1\<close>); the others are the \<open>sizeof\<close> of the client fields
  that \<open>strlcpy\<close> writes. Their values are not fixed by the module, so every
  operation takes them as a parameter.
\<close>

record host_sizes =
  IDLEN :: nat
  sizeof_id :: nat
  sizeof_account :: nat
  sizeof_host :: nat
  sizeof_username :: nat

text \<open>
  \<open>strlcpy(dst, src, size)\<close>: at most \<open>size - 1\<close> characters of \<open>src\<close> are copied
  and the result is terminated; a size of 0 writes nothing.
\<close>

definition strlcpy :: "string \<Rightarrow> string \<Rightarrow> nat \<Rightarrow> string" where
  "strlcpy dst src n = (if n = 0 then dst else take (n - 1) src)"

text \<open>\<open>s[0]\<close> of a C string: the terminating NUL when the string is empty.\<close>

definition first_char :: "string \<Rightarrow> char" where
  "first_char s = (case s of [] \<Rightarrow> CHR 0x00 | c # _ \<Rightarrow> c)"

text \<open>\<open>string_is_empty\<close> of the host's string helpers, on a non-null string.\<close>

definition string_is_empty :: "string \<Rightarrow> bool" where
  "string_is_empty s = (s = [])"

text \<open>
  What the module hands to the host's send primitives, in order:
  \<open>sendto_one\<close> (a raw line to a client), \<open>sendto_one_numeric\<close> with
  \<open>SND_EXPLICIT\<close> (the numeric and the formatted explicit text; the sender is always
  \<open>&me\<close>) and \<open>sendto_servers\<close> (a line broadcast to the servers).
\<close>

datatype event =
  To_one cptr string
| To_numeric cptr nat string
| To_servers string

text \<open>
  The state the module works on. \<open>sessions\<close> is the static array of
  \<open>SASL_MAX_SESSIONS\<close> slots, a function of the slot index; only indices below
  \<open>SASL_MAX_SESSIONS\<close> are ever read or written. The other fields belong to the host:
  the store of client structures, the UID hash table (\<open>hash_find_id\<close> returns the
  stored pointer, \<open>NULL\<close> for an unknown id), the capability registry, the UID
  generator (the sequence of ids \<open>uid_get\<close> returns and the position in it), the
  monotonic clock, \<open>me.id\<close>, and the log of everything sent.
\<close>

record ircd =
  sessions :: "nat \<Rightarrow> sasl_session"
  clients :: "cptr \<Rightarrow> Client"
  id_hash :: "string \<Rightarrow> cptr"
  caps :: "string \<rightharpoonup> 32 word \<times> string option"
  uid_seq :: "nat \<Rightarrow> string"
  uid_pos :: nat
  mono_sec :: "64 word"
  me_id :: string
  sent :: "event list"

section \<open>Host primitives\<close>

definition sendto_one :: "cptr \<Rightarrow> string \<Rightarrow> ircd \<Rightarrow> ircd" where
  "sendto_one to line s = s\<lparr>sent := sent s @ [To_one to line]\<rparr>"

definition sendto_one_numeric :: "cptr \<Rightarrow> nat \<Rightarrow> string \<Rightarrow> ircd \<Rightarrow> ircd" where
  "sendto_one_numeric to numeric body s = s\<lparr>sent := sent s @ [To_numeric to numeric body]\<rparr>"

definition sendto_servers :: "string \<Rightarrow> ircd \<Rightarrow> ircd" where
  "sendto_servers line s = s\<lparr>sent := sent s @ [To_servers line]\<rparr>"

definition hash_find_id :: "ircd \<Rightarrow> string \<Rightarrow> cptr" where
  "hash_find_id s uid = id_hash s uid"

definition hash_add_id :: "cptr \<Rightarrow> ircd \<Rightarrow> ircd" where
  "hash_add_id p s = s\<lparr>id_hash := (id_hash s)(id_c (clients s p) := p)\<rparr>"

text \<open>
  Modelled from the spec: the capability advertiser (the host's \<open>cap_register\<close> and
  \<open>cap_unregister\<close>, whose code is not part of the module). \<open>register\<close> publishes the
  capability with a mechanism string, replacing an earlier registration of that name;
  \<open>unregister\<close> removes it. A null mechanism string is \<open>None\<close>: the capability is
  advertised with no mechanisms.
\<close>

definition cap_unregister :: "string \<Rightarrow> ircd \<Rightarrow> ircd" where
  "cap_unregister nm s = s\<lparr>caps := (caps s)(nm := None)\<rparr>"

definition cap_register :: "32 word \<Rightarrow> string \<Rightarrow> string option \<Rightarrow> ircd \<Rightarrow> ircd" where
  "cap_register flag nm mechs s = s\<lparr>caps := (caps s)(nm \<mapsto> (flag, mechs))\<rparr>"

text \<open>
  The loop \<open>while (hash_find_id((id = uid_get()))) ;\<close>: each call of \<open>uid_get\<close>
  takes the next id of the generator; the loop ends at the first id the hash table
  does not know. Nothing in the module bounds it, so the model may not return
  (\<open>None\<close>).
\<close>

partial_function (option) uid_loop :: "(string \<Rightarrow> cptr) \<Rightarrow> (nat \<Rightarrow> string) \<Rightarrow> nat \<Rightarrow> (string \<times> nat) option" where
  "uid_loop h g n = (if h (g n) \<noteq> NULL then uid_loop h g (Suc n) else Some (g n, Suc n))"

section \<open>Session management helpers\<close>

text \<open>The \<open>for\<close> loop of \<open>sasl_find_session\<close>, from index \<open>i\<close> on.\<close>

function sasl_find_session_from :: "(nat \<Rightarrow> sasl_session) \<Rightarrow> cptr \<Rightarrow> nat \<Rightarrow> nat option" where
  "sasl_find_session_from t c i =
     (if i < SASL_MAX_SESSIONS
      then (if client (t i) = c then Some i else sasl_find_session_from t c (Suc i))
      else None)"
  by pat_completeness auto
termination
  by (relation "measure (\<lambda>(t, c, i). SASL_MAX_SESSIONS - i)") auto

declare sasl_find_session_from.simps [simp del]

definition sasl_find_session :: "(nat \<Rightarrow> sasl_session) \<Rightarrow> cptr \<Rightarrow> nat option" where
  "sasl_find_session t c = sasl_find_session_from t c 0"

text \<open>The \<open>for\<close> loop of \<open>sasl_new_session\<close>: the first slot whose client is null.\<close>

function sasl_new_session_from :: "(nat \<Rightarrow> sasl_session) \<Rightarrow> nat \<Rightarrow> nat option" where
  "sasl_new_session_from t i =
     (if i < SASL_MAX_SESSIONS
      then (if client (t i) = NULL then Some i else sasl_new_session_from t (Suc i))
      else None)"
  by pat_completeness auto
termination
  by (relation "measure (\<lambda>(t, i). SASL_MAX_SESSIONS - i)") auto

declare sasl_new_session_from.simps [simp del]

text \<open>
  \<open>sasl_new_session\<close> returns the slot it took (or none) and the state with the slot
  zeroed, bound to the client and stamped with the monotonic time.
\<close>

definition sasl_new_session :: "cptr \<Rightarrow> ircd \<Rightarrow> nat option \<times> ircd" where
  "sasl_new_session c s =
     (case sasl_new_session_from (sessions s) 0 of
        None \<Rightarrow> (None, s)
      | Some i \<Rightarrow>
          (Some i,
           s\<lparr>sessions := (sessions s)
                (i := zero_session\<lparr>client := c, start_time := mono_sec s\<rparr>)\<rparr>))"

definition sasl_clear_session :: "nat \<Rightarrow> ircd \<Rightarrow> ircd" where
  "sasl_clear_session i s = s\<lparr>sessions := (sessions s)(i := zero_session)\<rparr>"

section \<open>Hook: a local client exits\<close>

definition sasl_client_exit_hook :: "cptr \<Rightarrow> ircd \<Rightarrow> ircd" where
  "sasl_client_exit_hook c s =
     (case sasl_find_session (sessions s) c of
        None \<Rightarrow> s
      | Some i \<Rightarrow>
          sasl_clear_session i
            (if agent (sessions s i) \<noteq> [] \<and> id_c (clients s c) \<noteq> []
             then sendto_servers
                    ('':'' @ me_id s @ '' ENCAP * SASL '' @ id_c (clients s c) @ '' ''
                       @ agent (sessions s i) @ '' D A'') s
             else s))"

section \<open>The AUTHENTICATE handler\<close>

text \<open>
  The block that gives the client a UID when it has none: the generator loop, the
  \<open>strlcpy\<close> into \<open>source->id\<close> and \<open>hash_add_id\<close>.
\<close>

definition assign_uid :: "host_sizes \<Rightarrow> cptr \<Rightarrow> ircd \<Rightarrow> ircd option" where
  "assign_uid hs source s =
     (if id_c (clients s source) = []
      then (case uid_loop (hash_find_id s) (uid_seq s) (uid_pos s) of
              None \<Rightarrow> None
            | Some (uid, n) \<Rightarrow>
                Some (hash_add_id source
                  (s\<lparr>uid_pos := n,
                     clients := (clients s)
                       (source := (clients s source)
                          \<lparr>id_c := strlcpy (id_c (clients s source)) uid (sizeof_id hs)\<rparr>)\<rparr>)))
      else Some s)"

text \<open>
  \<open>mr_authenticate\<close>; \<open>parc\<close> is the length of \<open>parv\<close>. The result is \<open>None\<close>
  when the UID loop does not return.
\<close>

definition mr_authenticate :: "host_sizes \<Rightarrow> cptr \<Rightarrow> string list \<Rightarrow> ircd \<Rightarrow> ircd option" where
  "mr_authenticate hs source parv s =
     (if \<not> HasCap (clients s source) CAP_SASL then Some s
      else if parv ! 1 = ''*'' then
        Some (sendto_one_numeric source 906
                (name (clients s source) @ '' :SASL authentication aborted'')
                (case sasl_find_session (sessions s) source of
                   None \<Rightarrow> s
                 | Some i \<Rightarrow>
                     sasl_clear_session i
                       (if agent (sessions s i) \<noteq> [] \<and> id_c (clients s source) \<noteq> []
                        then sendto_servers
                               ('':'' @ me_id s @ '' ENCAP * SASL '' @ id_c (clients s source)
                                  @ '' '' @ agent (sessions s i) @ '' D A'') s
                        else s)))
      else
        (case assign_uid hs source s of
           None \<Rightarrow> None
         | Some s1 \<Rightarrow>
             Some
               (case sasl_find_session (sessions s1) source of
                  None \<Rightarrow>
                    (case sasl_new_session source s1 of
                       (None, s2) \<Rightarrow>
                         sendto_one_numeric source 904
                           (name (clients s2 source) @ '' :SASL authentication failed'') s2
                     | (Some i, s2) \<Rightarrow>
                         sendto_servers
                           ('':'' @ me_id s2 @ '' ENCAP * SASL '' @ id_c (clients s2 source)
                              @ '' * S '' @ parv ! 1)
                           (sendto_servers
                              ('':'' @ me_id s2 @ '' ENCAP * SASL '' @ id_c (clients s2 source)
                                 @ '' * H '' @ host (clients s2 source) @ '' ''
                                 @ sockhost (clients s2 source)) s2))
                | Some i \<Rightarrow>
                    (let m = messages (sessions s1 i) + 1;
                         s2 = s1\<lparr>sessions := (sessions s1)(i := (sessions s1 i)\<lparr>messages := m\<rparr>)\<rparr>
                     in if SASL_MAX_MESSAGES < m
                        then sasl_clear_session i
                               ((if agent (sessions s2 i) \<noteq> []
                                 then sendto_servers
                                        ('':'' @ me_id s2 @ '' ENCAP * SASL ''
                                           @ id_c (clients s2 source) @ '' ''
                                           @ agent (sessions s2 i) @ '' D A'')
                                 else (\<lambda>x. x))
                                  (sendto_one_numeric source 904
                                     (name (clients s2 source) @ '' :SASL message limit exceeded'')
                                     s2))
                        else sendto_servers
                               ('':'' @ me_id s2 @ '' ENCAP * SASL '' @ id_c (clients s2 source)
                                  @ '' ''
                                  @ (if agent (sessions s2 i) \<noteq> [] then agent (sessions s2 i)
                                     else ''*'')
                                  @ '' C '' @ parv ! 1) s2))))"

section \<open>The SASL handler: messages from services\<close>

text \<open>The failure branch of type \<open>D\<close>.\<close>

definition sasl_done_failure :: "cptr \<Rightarrow> nat option \<Rightarrow> ircd \<Rightarrow> ircd" where
  "sasl_done_failure target session s =
     (case session of
        None \<Rightarrow>
          sendto_one_numeric target 904
            (name (clients s target) @ '' :SASL authentication failed'') s
      | Some i \<Rightarrow>
          (let f = failures (sessions s i) + 1;
               s1 = s\<lparr>sessions := (sessions s)(i := (sessions s i)\<lparr>failures := f\<rparr>)\<rparr>
           in if SASL_MAX_FAILURES \<le> f
              then sasl_clear_session i
                     (sendto_one_numeric target 904
                        (name (clients s1 target) @ '' :SASL authentication failed'') s1)
              else sendto_one_numeric target 904
                     (name (clients s1 target) @ '' :SASL authentication failed'') s1))"

text \<open>The success branch of type \<open>D\<close>.\<close>

definition sasl_done_success :: "cptr \<Rightarrow> nat option \<Rightarrow> ircd \<Rightarrow> ircd" where
  "sasl_done_success target session s =
     (let c = clients s target;
          s1 = sendto_one_numeric target 900
                 (name c @ '' '' @ name c @ ''!'' @ username c @ ''@'' @ host c @ '' ''
                    @ account c @ '' :You are now logged in as '' @ account c) s;
          s2 = sendto_one_numeric target 903
                 (name c @ '' :SASL authentication successful'') s1
      in case session of
           None \<Rightarrow> s2
         | Some i \<Rightarrow>
             sasl_clear_session i
               (s2\<lparr>sessions := (sessions s2)(i := (sessions s2 i)\<lparr>complete := True\<rparr>)\<rparr>))"

text \<open>
  \<open>me_sasl\<close>. The \<open>source\<close> argument is not used by the function. \<open>parv[1]\<close> is the
  agent, \<open>parv[2]\<close> the target UID, \<open>parv[3]\<close> the type, \<open>parv[4]\<close> the data.
\<close>

definition me_sasl :: "host_sizes \<Rightarrow> cptr \<Rightarrow> string list \<Rightarrow> ircd \<Rightarrow> ircd" where
  "me_sasl hs source parv s =
     (let target = hash_find_id s (parv ! 2);
          parc = length parv
      in if target = NULL \<or> \<not> MyConnect (clients s target) then s
         else
           (let session = sasl_find_session (sessions s) target;
                ty = first_char (parv ! 3)
            in if ty = CHR ''C'' then
                 (if parc < 5 then s
                  else
                    (let s1 = sendto_one target (''AUTHENTICATE '' @ parv ! 4) s
                     in case session of
                          None \<Rightarrow> s1
                        | Some i \<Rightarrow>
                            if agent (sessions s1 i) = []
                            then s1\<lparr>sessions := (sessions s1)
                                   (i := (sessions s1 i)
                                      \<lparr>agent := strlcpy (agent (sessions s1 i)) (parv ! 1)
                                                 (IDLEN hs + 1)\<rparr>)\<rparr>
                            else s1))
               else if ty = CHR ''D'' then
                 (if 5 \<le> parc \<and> first_char (parv ! 4) = CHR ''S''
                  then sasl_done_success target session s
                  else sasl_done_failure target session s)
               else if ty = CHR ''L'' then
                 (if 5 \<le> parc
                  then s\<lparr>clients := (clients s)
                         (target := (clients s target)
                            \<lparr>account := strlcpy (account (clients s target)) (parv ! 4)
                                         (sizeof_account hs)\<rparr>)\<rparr>
                  else s)
               else if ty = CHR ''M'' then
                 (let mechs = (if 5 \<le> parc \<and> \<not> string_is_empty (parv ! 4)
                               then Some (parv ! 4) else None)
                  in cap_register CAP_SASL ''sasl'' mechs (cap_unregister ''sasl'' s))
               else s))"

section \<open>The SVSLOGIN and MECHLIST handlers\<close>

text \<open>
  \<open>me_svslogin\<close>: \<open>parv[1]\<close> is the target UID, \<open>parv[2]\<close> the nick, \<open>parv[3]\<close>
  the ident, \<open>parv[4]\<close> the vhost, \<open>parv[5]\<close> the account. The three writes are made
  in the order of the source: account, host, username.
\<close>

definition me_svslogin :: "host_sizes \<Rightarrow> cptr \<Rightarrow> string list \<Rightarrow> ircd \<Rightarrow> ircd" where
  "me_svslogin hs source parv s =
     (let parc = length parv
      in if \<not> flag_service (clients s source) \<and> \<not> is_server (clients s source) then s
         else
           (let target = hash_find_id s (parv ! 1)
            in if target = NULL then s
               else
                 (let c0 = clients s target;
                      c1 = (if 6 \<le> parc \<and> parv ! 5 \<noteq> ''*''
                            then c0\<lparr>account := strlcpy (account c0) (parv ! 5) (sizeof_account hs)\<rparr>
                            else c0);
                      c2 = (if 5 \<le> parc \<and> parv ! 4 \<noteq> ''*''
                            then c1\<lparr>host := strlcpy (host c1) (parv ! 4) (sizeof_host hs)\<rparr>
                            else c1);
                      c3 = (if 4 \<le> parc \<and> parv ! 3 \<noteq> ''*''
                            then c2\<lparr>username := strlcpy (username c2) (parv ! 3) (sizeof_username hs)\<rparr>
                            else c2)
                  in s\<lparr>clients := (clients s)(target := c3)\<rparr>)))"

text \<open>\<open>me_mechlist\<close>: \<open>parv[1]\<close> is the mechanism list.\<close>

definition me_mechlist :: "cptr \<Rightarrow> string list \<Rightarrow> ircd \<Rightarrow> ircd" where
  "me_mechlist source parv s =
     (let mechs = (if 2 \<le> length parv \<and> \<not> string_is_empty (parv ! 1)
                   then Some (parv ! 1) else None)
      in cap_register CAP_SASL ''sasl'' mechs (cap_unregister ''sasl'' s))"

section \<open>Module init and exit\<close>

text \<open>
  Of \<open>init_handler\<close> and \<open>exit_handler\<close> the state keeps the capability registration
  and the \<open>memset\<close> of the whole table; adding and removing the commands and the hook
  is the dispatcher's state.
\<close>

definition init_handler :: "ircd \<Rightarrow> ircd" where
  "init_handler s = cap_register CAP_SASL ''sasl'' (Some ''PLAIN'') s"

definition exit_handler :: "ircd \<Rightarrow> ircd" where
  "exit_handler s =
     (cap_unregister ''sasl'' s)
       \<lparr>sessions := (\<lambda>i. if i < SASL_MAX_SESSIONS then zero_session else sessions s i)\<rparr>"

section \<open>Dispatch\<close>

text \<open>
  The entry points of the module. The command tables bind \<open>mr_authenticate\<close> to
  AUTHENTICATE with \<open>args_min = 2\<close>, \<open>me_sasl\<close> to SASL with \<open>args_min = 4\<close>,
  \<open>me_svslogin\<close> to SVSLOGIN with \<open>args_min = 2\<close> and \<open>me_mechlist\<close> to MECHLIST with
  \<open>args_min = 1\<close>: a handler is not called with fewer arguments, so then the module
  does nothing. \<open>Client_exit\<close> is the exit hook, \<open>Module_init\<close> and \<open>Module_exit\<close> the
  two lifecycle handlers. \<open>Host f\<close> is anything the host does between two calls of
  the module: the session table is static to the module, so \<open>f\<close> changes every part
  of the state but the table.
\<close>

datatype action =
  AUTHENTICATE cptr "string list"
| SASL cptr "string list"
| SVSLOGIN cptr "string list"
| MECHLIST cptr "string list"
| Client_exit cptr
| Module_init
| Module_exit
| Host "ircd \<Rightarrow> ircd"

fun dispatch :: "host_sizes \<Rightarrow> action \<Rightarrow> ircd \<Rightarrow> ircd option" where
  "dispatch hs (AUTHENTICATE source parv) s =
     (if 2 \<le> length parv then mr_authenticate hs source parv s else Some s)"
| "dispatch hs (SASL source parv) s =
     Some (if 4 \<le> length parv then me_sasl hs source parv s else s)"
| "dispatch hs (SVSLOGIN source parv) s =
     Some (if 2 \<le> length parv then me_svslogin hs source parv s else s)"
| "dispatch hs (MECHLIST source parv) s =
     Some (if 1 \<le> length parv then me_mechlist source parv s else s)"
| "dispatch hs (Client_exit c) s = Some (sasl_client_exit_hook c s)"
| "dispatch hs Module_init s = Some (init_handler s)"
| "dispatch hs Module_exit s = Some (exit_handler s)"
| "dispatch hs (Host f) s = Some ((f s)\<lparr>sessions := sessions s\<rparr>)"

text \<open>A sequence of events, one after the other; \<open>None\<close> when one does not return.\<close>

fun run :: "host_sizes \<Rightarrow> action list \<Rightarrow> ircd \<Rightarrow> ircd option" where
  "run hs [] s = Some s"
| "run hs (a # as) s =
     (case dispatch hs a s of None \<Rightarrow> None | Some s1 \<Rightarrow> run hs as s1)"

text \<open>
  The session in slot \<open>i\<close> lives through a sequence of events when every event
  returns and leaves a client in the slot.
\<close>

fun session_lives :: "host_sizes \<Rightarrow> nat \<Rightarrow> action list \<Rightarrow> ircd \<Rightarrow> bool" where
  "session_lives hs i [] s = True"
| "session_lives hs i (a # as) s =
     (case dispatch hs a s of
        None \<Rightarrow> False
      | Some s1 \<Rightarrow> client (sessions s1 i) \<noteq> NULL \<and> session_lives hs i as s1)"

section \<open>How one event changes one slot\<close>

text \<open>
  The ways an event can change a slot of the table: not at all; by zeroing it; by
  taking a free slot for a new session; by adding one to \<open>messages\<close>, which only an
  AUTHENTICATE other than the abort does; by adding one to \<open>failures\<close>, which only a
  SASL message of type \<open>D\<close> does; or by binding the agent, which only a SASL message
  of type \<open>C\<close> with data does, and only in a slot whose agent is empty.
\<close>

definition slot_change :: "host_sizes \<Rightarrow> action \<Rightarrow> sasl_session \<Rightarrow> sasl_session \<Rightarrow> bool" where
  "slot_change hs a x y =
     (y = x \<or> y = zero_session
      \<or> (client x = NULL \<and> (\<exists>c t. y = zero_session\<lparr>client := c, start_time := t\<rparr>))
      \<or> (\<exists>source parv. a = AUTHENTICATE source parv \<and> 2 \<le> length parv
             \<and> parv ! 1 \<noteq> ''*'' \<and> y = x\<lparr>messages := messages x + 1\<rparr>)
      \<or> (\<exists>source parv. a = SASL source parv \<and> 4 \<le> length parv
             \<and> first_char (parv ! 3) = CHR ''D'' \<and> y = x\<lparr>failures := failures x + 1\<rparr>)
      \<or> (agent x = [] \<and>
          (\<exists>source parv. a = SASL source parv \<and> 5 \<le> length parv
             \<and> first_char (parv ! 3) = CHR ''C''
             \<and> y = x\<lparr>agent := strlcpy [] (parv ! 1) (IDLEN hs + 1)\<rparr>)))"

section \<open>A small network, for concrete runs\<close>

text \<open>
  Array sizes as in a stock build of the host; one server \<open>001\<close>; a local client
  alice (address 1) with a UID and the \<open>sasl\<close> capability, the services server
  (address 2), a client bob on another server (address 3), and local clients without a
  UID at every other address.
\<close>

definition ex_sizes :: host_sizes where
  "ex_sizes =
     \<lparr>IDLEN = 12, sizeof_id = 13, sizeof_account = 31, sizeof_host = 64,
      sizeof_username = 11\<rparr>"

definition ex_client :: "cptr \<Rightarrow> Client" where
  "ex_client p =
     (if p = 1 then
        \<lparr>name = ''alice'', id_c = ''001AAAAAA'', username = ''al'', host = ''example.org'',
         sockhost = ''192.0.2.1'', account = ''*'', cap_active = 512, connection = True,
         flag_service = False, is_server = False\<rparr>
      else if p = 2 then
        \<lparr>name = ''services.example.org'', id_c = ''00S'', username = [], host = [],
         sockhost = [], account = [], cap_active = 0, connection = True,
         flag_service = False, is_server = True\<rparr>
      else if p = 3 then
        \<lparr>name = ''bob'', id_c = ''002AAAAAA'', username = ''bob'', host = ''example.net'',
         sockhost = ''198.51.100.2'', account = ''bob'', cap_active = 0, connection = False,
         flag_service = False, is_server = False\<rparr>
      else
        \<lparr>name = ''carol'', id_c = [], username = ''carol'', host = ''example.com'',
         sockhost = ''203.0.113.3'', account = ''*'', cap_active = 512, connection = True,
         flag_service = False, is_server = False\<rparr>)"

definition ex_ircd :: "(nat \<Rightarrow> sasl_session) \<Rightarrow> ircd" where
  "ex_ircd t =
     \<lparr>sessions = t, clients = ex_client,
      id_hash = (\<lambda>u. if u = ''001AAAAAA'' then 1 else if u = ''00S'' then 2
                      else if u = ''002AAAAAA'' then 3 else NULL),
      caps = [''sasl'' \<mapsto> (CAP_SASL, Some ''PLAIN'')],
      uid_seq = (\<lambda>n. if n = 0 then ''001AAAAAA'' else ''001AAAAAB''),
      uid_pos = 0, mono_sec = 1000, me_id = ''001'', sent = []\<rparr>"

text \<open>A table with one session, alice's, in slot 0; an empty table; a full table.\<close>

definition ex_session :: "string \<Rightarrow> 32 word \<Rightarrow> 32 word \<Rightarrow> sasl_session" where
  "ex_session ag m f =
     \<lparr>client = 1, agent = ag, messages = m, failures = f, start_time = 1000,
      complete = False\<rparr>"

definition ex_one :: "sasl_session \<Rightarrow> nat \<Rightarrow> sasl_session" where
  "ex_one x = (\<lambda>i. if i = 0 then x else zero_session)"

definition ex_empty :: "nat \<Rightarrow> sasl_session" where
  "ex_empty = (\<lambda>i. zero_session)"

definition ex_full :: "nat \<Rightarrow> sasl_session" where
  "ex_full = (\<lambda>i. zero_session\<lparr>client := i + 10\<rparr>)"

section \<open>Facts about the loops\<close>

lemma find_from_Some:
  "sasl_find_session_from t c i = Some j \<Longrightarrow>
     i \<le> j \<and> j < SASL_MAX_SESSIONS \<and> client (t j) = c"
proof (induction t c i rule: sasl_find_session_from.induct)
  case (1 t c i)
  show ?case
  proof (cases "i < SASL_MAX_SESSIONS \<and> client (t i) \<noteq> c")
    case True
    with "1.prems" have "sasl_find_session_from t c (Suc i) = Some j"
      by (simp add: sasl_find_session_from.simps [of t c i])
    with True "1.IH" show ?thesis by force
  next
    case False
    with "1.prems" show ?thesis
      by (auto simp: sasl_find_session_from.simps [of t c i] split: if_splits)
  qed
qed

lemma find_from_None:
  "(sasl_find_session_from t c i = None) =
     (\<forall>k. i \<le> k \<and> k < SASL_MAX_SESSIONS \<longrightarrow> client (t k) \<noteq> c)"
proof (induction t c i rule: sasl_find_session_from.induct)
  case (1 t c i)
  show ?case
  proof (cases "i < SASL_MAX_SESSIONS \<and> client (t i) \<noteq> c")
    case True
    then have "sasl_find_session_from t c i = sasl_find_session_from t c (Suc i)"
      by (simp add: sasl_find_session_from.simps [of t c i])
    moreover have "(\<forall>k. i \<le> k \<and> k < SASL_MAX_SESSIONS \<longrightarrow> client (t k) \<noteq> c) =
        (\<forall>k. Suc i \<le> k \<and> k < SASL_MAX_SESSIONS \<longrightarrow> client (t k) \<noteq> c)"
      using True by (metis Suc_leI le_neq_implies_less Suc_leD)
    ultimately show ?thesis using "1.IH" True by simp
  next
    case False
    then show ?thesis
      by (auto simp: sasl_find_session_from.simps [of t c i])
  qed
qed

lemma new_from_find_from:
  "sasl_new_session_from t i = sasl_find_session_from t NULL i"
proof (induction t i rule: sasl_new_session_from.induct)
  case (1 t i)
  then show ?case
    by (simp add: sasl_new_session_from.simps [of t i] sasl_find_session_from.simps [of t NULL i])
qed

lemma uid_loop_returns:
  "h (g (n + k)) = NULL \<Longrightarrow> \<exists>r. uid_loop h g n = Some r"
proof (induction k arbitrary: n)
  case 0
  then show ?case by (simp add: uid_loop.simps [of h g n])
next
  case (Suc k)
  then have "\<exists>r. uid_loop h g (Suc n) = Some r" by simp
  then show ?case by (simp add: uid_loop.simps [of h g n])
qed

lemma find_session_Some:
  "sasl_find_session t c = Some j \<Longrightarrow> j < SASL_MAX_SESSIONS \<and> client (t j) = c"
  using find_from_Some [of t c 0 j] by (simp add: sasl_find_session_def)

lemma find_session_None:
  "(sasl_find_session t c = None) = (\<forall>k<SASL_MAX_SESSIONS. client (t k) \<noteq> c)"
  by (simp add: sasl_find_session_def find_from_None)

lemmas ex_defs = ex_ircd_def ex_client_def ex_one_def ex_session_def ex_sizes_def
  hash_find_id_def MyConnect_def first_char_def HasCap_def CAP_SASL_def

lemma find_ex_one: "sasl_find_session (ex_one (ex_session ag m f)) (Suc 0) = Some 0"
  by (simp add: sasl_find_session_def sasl_find_session_from.simps [of _ _ 0]
      SASL_MAX_SESSIONS_def ex_one_def ex_session_def)

lemma find_ex_empty: "c \<noteq> NULL \<Longrightarrow> sasl_find_session ex_empty c = None"
  by (simp add: find_session_None ex_empty_def zero_session_def)

section \<open>Type \<open>D\<close>: the outcome of an authentication\<close>

lemma me_sasl_failure:
  assumes "hash_find_id s (parv ! 2) = target" "target \<noteq> NULL" "MyConnect (clients s target)"
    and "first_char (parv ! 3) = CHR ''D''"
    and "length parv < 5 \<or> first_char (parv ! 4) \<noteq> CHR ''S''"
  shows "me_sasl hs source parv s =
           sasl_done_failure target (sasl_find_session (sessions s) target) s"
  using assms by (auto simp: me_sasl_def Let_def)

lemma sasl_done_failure_Some:
  "sasl_done_failure target (Some i) s =
     s\<lparr>sessions := (sessions s)
          (i := if 3 \<le> failures (sessions s i) + 1 then zero_session
                else (sessions s i)\<lparr>failures := failures (sessions s i) + 1\<rparr>),
       sent := sent s @
          [To_numeric target 904 (name (clients s target) @ '' :SASL authentication failed'')]\<rparr>"
  by (simp add: sasl_done_failure_def Let_def SASL_MAX_FAILURES_def sasl_clear_session_def
      sendto_one_numeric_def)

text \<open>
  Claim C5. A SASL message of type \<open>D\<close> that is not a success (no data, or data not
  starting with \<open>S\<close>), for a local target that has a session, adds one to the
  session's \<open>failures\<close> counter. When the counter reaches 3 the session is cleared;
  below 3 it is kept with the new count. Numeric 904 with the text
  \<open><nick> :SASL authentication failed\<close> goes to the target in both cases, and nothing
  else changes.
\<close>

theorem sasl_done_failure_counts:
  assumes "4 \<le> length parv"
    and "hash_find_id s (parv ! 2) = target" "target \<noteq> NULL" "MyConnect (clients s target)"
    and "first_char (parv ! 3) = CHR ''D''"
    and "length parv < 5 \<or> first_char (parv ! 4) \<noteq> CHR ''S''"
    and "sasl_find_session (sessions s) target = Some i"
  shows "me_sasl hs source parv s =
     s\<lparr>sessions := (sessions s)
          (i := if 3 \<le> failures (sessions s i) + 1 then zero_session
                else (sessions s i)\<lparr>failures := failures (sessions s i) + 1\<rparr>),
       sent := sent s @
          [To_numeric target 904 (name (clients s target) @ '' :SASL authentication failed'')]\<rparr>"
  using assms by (simp add: me_sasl_failure sasl_done_failure_Some)

text \<open>
  Alice's session with one failure gets a second one and stays; with two failures the
  third \<open>D F\<close> clears it. 904 is sent both times.
\<close>

theorem sasl_done_failure_counts_witness:
  "sasl_find_session (sessions (ex_ircd (ex_one (ex_session ''00SAAAAAB'' 1 2)))) 1 = Some 0
   \<and> me_sasl ex_sizes 2 [''SASL'', ''00SAAAAAB'', ''001AAAAAA'', ''D'', ''F'']
       (ex_ircd (ex_one (ex_session ''00SAAAAAB'' 1 1)))
     = (ex_ircd (ex_one (ex_session ''00SAAAAAB'' 1 2)))
         \<lparr>sent := [To_numeric 1 904 ''alice :SASL authentication failed'']\<rparr>
   \<and> me_sasl ex_sizes 2 [''SASL'', ''00SAAAAAB'', ''001AAAAAA'', ''D'', ''F'']
       (ex_ircd (ex_one (ex_session ''00SAAAAAB'' 1 2)))
     = (ex_ircd ex_empty)
         \<lparr>sent := [To_numeric 1 904 ''alice :SASL authentication failed'']\<rparr>"
proof -
  let ?pv = "[''SASL'', ''00SAAAAAB'', ''001AAAAAA'', ''D'', ''F'']"
  let ?s = "\<lambda>k. ex_ircd (ex_one (ex_session ''00SAAAAAB'' 1 k))"
  have f: "sasl_find_session (sessions (?s k)) 1 = Some 0" for k
    by (simp add: ex_ircd_def find_ex_one)
  have h: "4 \<le> length ?pv" "hash_find_id (?s k) (?pv ! 2) = 1" "(1::nat) \<noteq> NULL"
    "MyConnect (clients (?s k) 1)" "first_char (?pv ! 3) = CHR ''D''"
    "length ?pv < 5 \<or> first_char (?pv ! 4) \<noteq> CHR ''S''" for k
    by (simp_all add: ex_defs)
  have a: "me_sasl ex_sizes 2 ?pv (?s 1)
     = (?s 2)\<lparr>sent := [To_numeric 1 904 ''alice :SASL authentication failed'']\<rparr>"
    using sasl_done_failure_counts [where hs = ex_sizes and source = 2 and s = "?s 1", OF h f]
    by (simp add: ex_defs fun_eq_iff)
  have b: "me_sasl ex_sizes 2 ?pv (?s 2)
     = (ex_ircd ex_empty)\<lparr>sent := [To_numeric 1 904 ''alice :SASL authentication failed'']\<rparr>"
    using sasl_done_failure_counts [where hs = ex_sizes and source = 2 and s = "?s 2", OF h f]
    by (simp add: ex_defs ex_empty_def fun_eq_iff)
  from f a b show ?thesis by simp
qed

text \<open>
  Claim C8. A SASL message \<open>D\<close> whose data starts with \<open>S\<close>, for a local target,
  sends numerics 900 and 903 to the target whether or not the target has a session.
  The table is touched only when there is a session: its slot is then cleared (the
  \<open>complete\<close> mark set just before is zeroed with it). Nothing else changes.
\<close>

theorem sasl_done_success_stray:
  assumes "5 \<le> length parv"
    and "hash_find_id s (parv ! 2) = target" "target \<noteq> NULL" "MyConnect (clients s target)"
    and "first_char (parv ! 3) = CHR ''D''"
    and "first_char (parv ! 4) = CHR ''S''"
  shows "me_sasl hs source parv s =
     (let c = clients s target;
          out = sent s @
            [To_numeric target 900
               (name c @ '' '' @ name c @ ''!'' @ username c @ ''@'' @ host c @ '' ''
                  @ account c @ '' :You are now logged in as '' @ account c),
             To_numeric target 903 (name c @ '' :SASL authentication successful'')]
      in case sasl_find_session (sessions s) target of
           None \<Rightarrow> s\<lparr>sent := out\<rparr>
         | Some i \<Rightarrow> s\<lparr>sessions := (sessions s)(i := zero_session), sent := out\<rparr>)"
  using assms
  by (simp add: me_sasl_def Let_def sasl_done_success_def sendto_one_numeric_def
      sasl_clear_session_def split: option.splits)

text \<open>A stray \<open>D S\<close> for alice, who has no session: 900 and 903 are sent all the same.\<close>

theorem sasl_done_success_stray_witness:
  "sasl_find_session (sessions (ex_ircd ex_empty)) 1 = None
   \<and> me_sasl ex_sizes 2 [''SASL'', ''00SAAAAAB'', ''001AAAAAA'', ''D'', ''S'']
       (ex_ircd ex_empty)
     = (ex_ircd ex_empty)
         \<lparr>sent := [To_numeric 1 900 ''alice alice!al@example.org * :You are now logged in as *'',
                    To_numeric 1 903 ''alice :SASL authentication successful'']\<rparr>"
proof -
  let ?pv = "[''SASL'', ''00SAAAAAB'', ''001AAAAAA'', ''D'', ''S'']"
  let ?s = "ex_ircd ex_empty"
  have f: "sasl_find_session (sessions ?s) 1 = None"
    by (simp add: ex_ircd_def find_ex_empty)
  have h: "5 \<le> length ?pv" "hash_find_id ?s (?pv ! 2) = 1" "(1::nat) \<noteq> NULL"
    "MyConnect (clients ?s 1)" "first_char (?pv ! 3) = CHR ''D''"
    "first_char (?pv ! 4) = CHR ''S''"
    by (simp_all add: ex_defs)
  have "me_sasl ex_sizes 2 ?pv ?s
     = ?s\<lparr>sent := [To_numeric 1 900 ''alice alice!al@example.org * :You are now logged in as *'',
                    To_numeric 1 903 ''alice :SASL authentication successful'']\<rparr>"
    using sasl_done_success_stray [where hs = ex_sizes and source = 2, OF h] f
    by (simp add: ex_defs)
  with f show ?thesis by simp
qed

text \<open>
  Claim C1, as the code has it. A SASL message of type \<open>D\<close> with no data argument
  (four arguments), for a local target, is not dropped: the test for success fails on
  the missing argument, so the message is a failure outcome. Numeric 904 goes to the
  target; a session of the target has its \<open>failures\<close> counter raised by one and is
  cleared when the counter reaches 3, kept otherwise; without a session the table is
  unchanged.
\<close>

theorem sasl_done_absent_data:
  assumes "length parv = 4"
    and "hash_find_id s (parv ! 2) = target" "target \<noteq> NULL" "MyConnect (clients s target)"
    and "first_char (parv ! 3) = CHR ''D''"
  shows "me_sasl hs source parv s =
     s\<lparr>sessions :=
          (case sasl_find_session (sessions s) target of
             None \<Rightarrow> sessions s
           | Some i \<Rightarrow> (sessions s)
               (i := if 3 \<le> failures (sessions s i) + 1 then zero_session
                     else (sessions s i)\<lparr>failures := failures (sessions s i) + 1\<rparr>)),
       sent := sent s @
          [To_numeric target 904 (name (clients s target) @ '' :SASL authentication failed'')]\<rparr>"
proof (cases "sasl_find_session (sessions s) target")
  case None
  with assms show ?thesis
    by (simp add: me_sasl_failure sasl_done_failure_def sendto_one_numeric_def)
next
  case (Some i)
  with assms show ?thesis
    by (simp add: me_sasl_failure sasl_done_failure_Some)
qed

text \<open>Alice's session has two failures; the \<open>D\<close> without data is her third.\<close>

theorem sasl_done_absent_data_witness:
  "length [''SASL'', ''00SAAAAAB'', ''001AAAAAA'', ''D''] = 4
   \<and> me_sasl ex_sizes 2 [''SASL'', ''00SAAAAAB'', ''001AAAAAA'', ''D'']
       (ex_ircd (ex_one (ex_session ''00SAAAAAB'' 1 2)))
     = (ex_ircd ex_empty)
         \<lparr>sent := [To_numeric 1 904 ''alice :SASL authentication failed'']\<rparr>"
proof -
  let ?pv = "[''SASL'', ''00SAAAAAB'', ''001AAAAAA'', ''D'']"
  let ?s = "ex_ircd (ex_one (ex_session ''00SAAAAAB'' 1 2))"
  have f: "sasl_find_session (sessions ?s) 1 = Some 0"
    by (simp add: ex_ircd_def find_ex_one)
  have h: "length ?pv = 4" "hash_find_id ?s (?pv ! 2) = 1" "(1::nat) \<noteq> NULL"
    "MyConnect (clients ?s 1)" "first_char (?pv ! 3) = CHR ''D''"
    by (simp_all add: ex_defs)
  have "me_sasl ex_sizes 2 ?pv ?s
     = (ex_ircd ex_empty)\<lparr>sent := [To_numeric 1 904 ''alice :SASL authentication failed'']\<rparr>"
    using sasl_done_absent_data [where hs = ex_sizes and source = 2, OF h] f
    by (simp add: ex_defs ex_empty_def fun_eq_iff)
  then show ?thesis by simp
qed

text \<open>
  The claim as it was stated fails: alice has a session with one failure and nothing
  has been sent; a \<open>D\<close> message without data makes the module send her 904 and count a
  second failure.
\<close>

theorem sasl_done_absent_data_not_dropped:
  "sent (ex_ircd (ex_one (ex_session ''00SAAAAAB'' 1 1))) = []
   \<and> failures (sessions (ex_ircd (ex_one (ex_session ''00SAAAAAB'' 1 1))) 0) = 1
   \<and> sent (me_sasl ex_sizes 2 [''SASL'', ''00SAAAAAB'', ''001AAAAAA'', ''D'']
             (ex_ircd (ex_one (ex_session ''00SAAAAAB'' 1 1))))
       = [To_numeric 1 904 ''alice :SASL authentication failed'']
   \<and> failures (sessions (me_sasl ex_sizes 2 [''SASL'', ''00SAAAAAB'', ''001AAAAAA'', ''D'']
             (ex_ircd (ex_one (ex_session ''00SAAAAAB'' 1 1)))) 0) = 2"
proof -
  let ?pv = "[''SASL'', ''00SAAAAAB'', ''001AAAAAA'', ''D'']"
  let ?s = "ex_ircd (ex_one (ex_session ''00SAAAAAB'' 1 1))"
  have f: "sasl_find_session (sessions ?s) 1 = Some 0"
    by (simp add: ex_ircd_def find_ex_one)
  have "me_sasl ex_sizes 2 ?pv ?s = sasl_done_failure 1 (Some 0) ?s"
    using f by (simp add: me_sasl_def Let_def ex_defs)
  then show ?thesis
    by (simp add: sasl_done_failure_Some ex_defs)
qed

section \<open>SVSLOGIN and the mechanism list\<close>

text \<open>
  Claim C9. An SVSLOGIN message from a server or a service, whose target UID is known,
  changes nothing but three fields of the target: \<open>username\<close> is copied from the
  ident argument, \<open>host\<close> from the vhost argument and \<open>account\<close> from the account
  argument (each cut to the size of its array by \<open>strlcpy\<close>), each one on its own and
  only when its argument is there and is not \<open>*\<close>; otherwise the field keeps its
  value. The nick argument is never read: the target's \<open>name\<close> is unchanged and any
  other nick gives the same result.
\<close>

theorem me_svslogin_fields:
  assumes "flag_service (clients s source) \<or> is_server (clients s source)"
    and "2 \<le> length parv"
    and "hash_find_id s (parv ! 1) = target" "target \<noteq> NULL"
  shows "me_svslogin hs source parv s =
     s\<lparr>clients := (clients s)
          (target := (clients s target)
             \<lparr>account :=
                (if 6 \<le> length parv \<and> parv ! 5 \<noteq> ''*''
                 then strlcpy (account (clients s target)) (parv ! 5) (sizeof_account hs)
                 else account (clients s target)),
              host :=
                (if 5 \<le> length parv \<and> parv ! 4 \<noteq> ''*''
                 then strlcpy (host (clients s target)) (parv ! 4) (sizeof_host hs)
                 else host (clients s target)),
              username :=
                (if 4 \<le> length parv \<and> parv ! 3 \<noteq> ''*''
                 then strlcpy (username (clients s target)) (parv ! 3) (sizeof_username hs)
                 else username (clients s target))\<rparr>)\<rparr>
     \<and> name (clients (me_svslogin hs source parv s) target) = name (clients s target)
     \<and> me_svslogin hs source (parv[2 := nick]) s = me_svslogin hs source parv s"
proof -
  from assms(1)
  have o: "(\<not> flag_service (clients s source) \<and> \<not> is_server (clients s source)) = False"
    by blast
  show ?thesis
    using assms(2-4) by (simp add: me_svslogin_def Let_def o)
qed

text \<open>
  The services server sets alice's vhost and account and leaves her ident (\<open>*\<close>); the
  nick argument \<open>mallory\<close> changes nothing.
\<close>

theorem me_svslogin_fields_witness:
  "is_server (clients (ex_ircd ex_empty) 2)
   \<and> hash_find_id (ex_ircd ex_empty) ''001AAAAAA'' = 1
   \<and> clients (me_svslogin ex_sizes 2
        [''SVSLOGIN'', ''001AAAAAA'', ''mallory'', ''*'', ''users.example.org'', ''alice'']
        (ex_ircd ex_empty)) 1
     = \<lparr>name = ''alice'', id_c = ''001AAAAAA'', username = ''al'',
        host = ''users.example.org'', sockhost = ''192.0.2.1'', account = ''alice'',
        cap_active = 512, connection = True, flag_service = False, is_server = False\<rparr>"
proof -
  let ?pv = "[''SVSLOGIN'', ''001AAAAAA'', ''mallory'', ''*'', ''users.example.org'', ''alice'']"
  let ?s = "ex_ircd ex_empty"
  have h: "flag_service (clients ?s 2) \<or> is_server (clients ?s 2)" "2 \<le> length ?pv"
    "hash_find_id ?s (?pv ! 1) = 1" "(1::nat) \<noteq> NULL"
    by (simp_all add: ex_defs)
  from me_svslogin_fields [where hs = ex_sizes, OF h]
  have "clients (me_svslogin ex_sizes 2 ?pv ?s) 1
     = \<lparr>name = ''alice'', id_c = ''001AAAAAA'', username = ''al'',
        host = ''users.example.org'', sockhost = ''192.0.2.1'', account = ''alice'',
        cap_active = 512, connection = True, flag_service = False, is_server = False\<rparr>"
    by (simp add: ex_defs strlcpy_def)
  then show ?thesis by (simp add: ex_defs)
qed

text \<open>
  Claim C3, as the code has it. A SASL message whose target UID is unknown, or known
  but not locally connected, is dropped: the state is unchanged. An SVSLOGIN message
  whose target UID is unknown is dropped in the same way; SVSLOGIN tests only that
  the target is known, not that it is local. Whatever its target, SVSLOGIN never
  changes the session table and never sends anything.
\<close>

theorem relay_unknown_target_dropped:
  "(4 \<le> length parv \<and>
      (hash_find_id s (parv ! 2) = NULL \<or> \<not> MyConnect (clients s (hash_find_id s (parv ! 2))))
      \<longrightarrow> me_sasl hs source parv s = s)
   \<and> (2 \<le> length pv \<and> hash_find_id s (pv ! 1) = NULL \<longrightarrow> me_svslogin hs src pv s = s)
   \<and> sessions (me_svslogin hs src pv s) = sessions s
   \<and> sent (me_svslogin hs src pv s) = sent s"
  by (auto simp: me_sasl_def me_svslogin_def Let_def)

text \<open>
  A SASL message for bob, who is on another server, and one for a UID nobody has; an
  SVSLOGIN for that UID.
\<close>

theorem relay_unknown_target_dropped_witness:
  "\<not> MyConnect (clients (ex_ircd ex_empty) (hash_find_id (ex_ircd ex_empty) ''002AAAAAA''))
   \<and> hash_find_id (ex_ircd ex_empty) ''009ZZZZZZ'' = NULL
   \<and> me_sasl ex_sizes 2 [''SASL'', ''00SAAAAAB'', ''002AAAAAA'', ''C'', ''+''] (ex_ircd ex_empty)
       = ex_ircd ex_empty
   \<and> me_sasl ex_sizes 2 [''SASL'', ''00SAAAAAB'', ''009ZZZZZZ'', ''D'', ''S''] (ex_ircd ex_empty)
       = ex_ircd ex_empty
   \<and> me_svslogin ex_sizes 2 [''SVSLOGIN'', ''009ZZZZZZ'', ''*'', ''*'', ''*'', ''alice'']
        (ex_ircd ex_empty) = ex_ircd ex_empty"
proof -
  let ?s = "ex_ircd ex_empty"
  let ?p1 = "[''SASL'', ''00SAAAAAB'', ''002AAAAAA'', ''C'', ''+'']"
  let ?p2 = "[''SASL'', ''00SAAAAAB'', ''009ZZZZZZ'', ''D'', ''S'']"
  let ?p3 = "[''SVSLOGIN'', ''009ZZZZZZ'', ''*'', ''*'', ''*'', ''alice'']"
  have a: "\<not> MyConnect (clients ?s (hash_find_id ?s ''002AAAAAA''))"
    and b: "hash_find_id ?s ''009ZZZZZZ'' = NULL"
    by (simp_all add: ex_defs)
  have "me_sasl ex_sizes 2 ?p1 ?s = ?s"
    using relay_unknown_target_dropped [of ?p1 ?s ex_sizes 2] a by simp
  moreover have "me_sasl ex_sizes 2 ?p2 ?s = ?s"
    using relay_unknown_target_dropped [of ?p2 ?s ex_sizes 2] b by simp
  moreover have "me_svslogin ex_sizes 2 ?p3 ?s = ?s"
    using relay_unknown_target_dropped [of ?p1 ?s ex_sizes 2 ?p3 2] b by simp
  ultimately show ?thesis using a b by simp
qed

text \<open>
  The claim as it was stated fails for SVSLOGIN: bob is known but not locally
  connected, and an SVSLOGIN from the services server writes his account all the same.
\<close>

theorem svslogin_writes_remote_target:
  "hash_find_id (ex_ircd ex_empty) ''002AAAAAA'' = 3
   \<and> \<not> MyConnect (clients (ex_ircd ex_empty) 3)
   \<and> account (clients (ex_ircd ex_empty) 3) = ''bob''
   \<and> account (clients (me_svslogin ex_sizes 2
         [''SVSLOGIN'', ''002AAAAAA'', ''*'', ''*'', ''*'', ''mallory''] (ex_ircd ex_empty)) 3)
       = ''mallory''"
  by (simp add: me_svslogin_def Let_def ex_defs strlcpy_def)

text \<open>
  Claim C4, as the code has it. A SASL message of type \<open>M\<close> is subject to the target
  test that opens \<open>me_sasl\<close>, which MECHLIST does not have. When the target of the SASL
  message is a local client, the two messages with the same mechanism argument \<open>m\<close>
  (\<open>None\<close> when the argument is missing) leave the same state: the \<open>sasl\<close> capability
  is registered anew with the mechanism string, and with no mechanisms when the
  argument is missing or empty.
\<close>

theorem mechlist_same_as_type_M:
  assumes "4 \<le> length parv"
    and "hash_find_id s (parv ! 2) \<noteq> NULL" "MyConnect (clients s (hash_find_id s (parv ! 2)))"
    and "first_char (parv ! 3) = CHR ''M''"
    and "m = (if 5 \<le> length parv then Some (parv ! 4) else None)"
    and "1 \<le> length pv"
    and "m = (if 2 \<le> length pv then Some (pv ! 1) else None)"
  shows "me_sasl hs source parv s = me_mechlist src pv s
     \<and> me_mechlist src pv s =
         s\<lparr>caps := (caps s)
              (''sasl'' \<mapsto> (CAP_SASL, if m = None \<or> m = Some [] then None else m))\<rparr>"
  using assms
  by (auto simp: me_sasl_def me_mechlist_def Let_def cap_register_def cap_unregister_def
      string_is_empty_def split: if_splits)

text \<open>Both messages, the SASL one addressed to alice, with the list \<open>PLAIN EXTERNAL\<close>.\<close>

theorem mechlist_same_as_type_M_witness:
  "MyConnect (clients (ex_ircd ex_empty) (hash_find_id (ex_ircd ex_empty) ''001AAAAAA''))
   \<and> me_sasl ex_sizes 2 [''SASL'', ''00SAAAAAB'', ''001AAAAAA'', ''M'', ''PLAIN EXTERNAL'']
        (ex_ircd ex_empty)
       = me_mechlist 2 [''MECHLIST'', ''PLAIN EXTERNAL''] (ex_ircd ex_empty)
   \<and> caps (me_mechlist 2 [''MECHLIST'', ''PLAIN EXTERNAL''] (ex_ircd ex_empty)) ''sasl''
       = Some (512, Some ''PLAIN EXTERNAL'')"
proof -
  let ?s = "ex_ircd ex_empty"
  let ?p1 = "[''SASL'', ''00SAAAAAB'', ''001AAAAAA'', ''M'', ''PLAIN EXTERNAL'']"
  let ?p2 = "[''MECHLIST'', ''PLAIN EXTERNAL'']"
  have h: "4 \<le> length ?p1" "hash_find_id ?s (?p1 ! 2) \<noteq> NULL"
    "MyConnect (clients ?s (hash_find_id ?s (?p1 ! 2)))" "first_char (?p1 ! 3) = CHR ''M''"
    "Some ''PLAIN EXTERNAL'' = (if 5 \<le> length ?p1 then Some (?p1 ! 4) else None)"
    "1 \<le> length ?p2"
    "Some ''PLAIN EXTERNAL'' = (if 2 \<le> length ?p2 then Some (?p2 ! 1) else None)"
    by (simp_all add: ex_defs)
  from mechlist_same_as_type_M [where hs = ex_sizes and source = 2 and src = 2, OF h]
  have "me_sasl ex_sizes 2 ?p1 ?s = me_mechlist 2 ?p2 ?s"
    and "caps (me_mechlist 2 ?p2 ?s) ''sasl'' = Some (512, Some ''PLAIN EXTERNAL'')"
    by (simp_all add: CAP_SASL_def)
  with h(3) show ?thesis by simp
qed

text \<open>
  The claim as it was stated fails: for a target UID that nobody has, the SASL
  message of type \<open>M\<close> leaves the advertised mechanisms at \<open>PLAIN\<close>, and MECHLIST with
  the same list replaces them.
\<close>

theorem type_M_unknown_target_differs:
  "caps (me_sasl ex_sizes 2 [''SASL'', ''00SAAAAAB'', ''009ZZZZZZ'', ''M'', ''PLAIN EXTERNAL'']
           (ex_ircd ex_empty)) ''sasl'' = Some (512, Some ''PLAIN'')
   \<and> caps (me_mechlist 2 [''MECHLIST'', ''PLAIN EXTERNAL''] (ex_ircd ex_empty)) ''sasl''
       = Some (512, Some ''PLAIN EXTERNAL'')"
  by (simp add: me_sasl_def me_mechlist_def Let_def cap_register_def cap_unregister_def
      string_is_empty_def ex_defs)

section \<open>AUTHENTICATE: the message budget and the full table\<close>


lemma msg_below: "unat (x::32 word) + 1 \<le> 20 \<Longrightarrow> \<not> SASL_MAX_MESSAGES < x + 1"
  by (simp add: SASL_MAX_MESSAGES_def word_less_nat_alt unat_word_ariths)

lemma msg_above: "unat (x::32 word) + 1 = 21 \<Longrightarrow> SASL_MAX_MESSAGES < x + 1"
  by (simp add: SASL_MAX_MESSAGES_def word_less_nat_alt unat_word_ariths)

lemma assign_uid_has_id:
  "id_c (clients s source) \<noteq> [] \<Longrightarrow> assign_uid hs source s = Some s"
  by (simp add: assign_uid_def)

lemma assign_uid_frame:
  assumes "assign_uid hs source s = Some s1"
  shows "sessions s1 = sessions s" "sent s1 = sent s" "me_id s1 = me_id s" "caps s1 = caps s"
    "mono_sec s1 = mono_sec s"
    "name (clients s1 p) = name (clients s p)" "connection (clients s1 p) = connection (clients s p)"
    "host (clients s1 p) = host (clients s p)" "sockhost (clients s1 p) = sockhost (clients s p)"
    "cap_active (clients s1 p) = cap_active (clients s p)"
  using assms
  by (auto simp: assign_uid_def hash_add_id_def split: if_splits option.splits)

lemma assign_uid_returns:
  assumes "id_c (clients s source) \<noteq> [] \<or> hash_find_id s (uid_seq s (uid_pos s + k)) = NULL"
  shows "\<exists>s1. assign_uid hs source s = Some s1"
proof (cases "id_c (clients s source) = []")
  case True
  with assms have "hash_find_id s (uid_seq s (uid_pos s + k)) = NULL" by simp
  from uid_loop_returns [of "hash_find_id s" "uid_seq s" "uid_pos s" k, OF this]
  obtain r where "uid_loop (hash_find_id s) (uid_seq s) (uid_pos s) = Some r" by blast
  with True show ?thesis by (cases r) (simp add: assign_uid_def)
next
  case False
  then show ?thesis by (simp add: assign_uid_def)
qed

lemma new_session_full:
  "\<forall>i<SASL_MAX_SESSIONS. client (sessions s i) \<noteq> NULL \<Longrightarrow> sasl_new_session c s = (None, s)"
proof -
  assume "\<forall>i<SASL_MAX_SESSIONS. client (sessions s i) \<noteq> NULL"
  then have "sasl_find_session (sessions s) NULL = None"
    by (simp add: find_session_None)
  then show ?thesis
    by (simp add: sasl_new_session_def new_from_find_from sasl_find_session_def)
qed

lemma mr_authenticate_relay:
  assumes "HasCap (clients s source) CAP_SASL" "parv ! 1 \<noteq> ''*''"
    and "id_c (clients s source) \<noteq> []"
    and "sasl_find_session (sessions s) source = Some i"
    and "\<not> SASL_MAX_MESSAGES < messages (sessions s i) + 1"
  shows "mr_authenticate hs source parv s =
        Some (s\<lparr>sessions := (sessions s)
                   (i := (sessions s i)\<lparr>messages := messages (sessions s i) + 1\<rparr>),
                sent := sent s @
                  [To_servers ('':'' @ me_id s @ '' ENCAP * SASL '' @ id_c (clients s source)
                     @ '' '' @ (if agent (sessions s i) \<noteq> [] then agent (sessions s i) else ''*'')
                     @ '' C '' @ parv ! 1)]\<rparr>)"
  using assms
  by (simp add: mr_authenticate_def assign_uid_has_id Let_def sendto_servers_def)

lemma mr_authenticate_exceeded:
  assumes "HasCap (clients s source) CAP_SASL" "parv ! 1 \<noteq> ''*''"
    and "id_c (clients s source) \<noteq> []"
    and "sasl_find_session (sessions s) source = Some i"
    and "SASL_MAX_MESSAGES < messages (sessions s i) + 1"
  shows "mr_authenticate hs source parv s =
        Some (s\<lparr>sessions := (sessions s)(i := zero_session),
                sent := sent s @
                  To_numeric source 904 (name (clients s source) @ '' :SASL message limit exceeded'')
                  # (if agent (sessions s i) \<noteq> []
                     then [To_servers ('':'' @ me_id s @ '' ENCAP * SASL ''
                             @ id_c (clients s source) @ '' '' @ agent (sessions s i) @ '' D A'')]
                     else [])\<rparr>)"
  using assms
  by (simp add: mr_authenticate_def assign_uid_has_id Let_def sendto_servers_def
        sendto_one_numeric_def sasl_clear_session_def)

text \<open>
  The counter counts the continuations: from a session whose counter is \<open>m\<close>, any
  \<open>n\<close> continuations in a row with \<open>m + n \<le> 20\<close> are all relayed and leave the
  counter at \<open>m + n\<close>. (That nothing but a continuation moves the counter of a live
  session is \<open>messages_only_by_continuation\<close> below.)
\<close>

lemma find_from_cong:
  "(\<And>k. client (t' k) = client (t k)) \<Longrightarrow>
   sasl_find_session_from t' c i = sasl_find_session_from t c i"
proof (induction t c i rule: sasl_find_session_from.induct)
  case (1 t c i)
  then show ?case
    by (simp add: sasl_find_session_from.simps [of t c i] sasl_find_session_from.simps [of t' c i])
qed

lemma find_session_messages:
  "sasl_find_session (t(i := (t i)\<lparr>messages := m\<rparr>)) c = sasl_find_session t c"
  unfolding sasl_find_session_def by (rule find_from_cong) simp

lemma continuations_counted:
  assumes "HasCap (clients s source) CAP_SASL" "id_c (clients s source) \<noteq> []"
    and "sasl_find_session (sessions s) source = Some i"
    and "\<forall>d\<in>set ds. d \<noteq> ''*''"
    and "unat (messages (sessions s i)) + length ds \<le> 20"
  shows "run hs (map (\<lambda>d. AUTHENTICATE source [''AUTHENTICATE'', d]) ds) s =
     Some (s\<lparr>sessions := (sessions s)
                (i := (sessions s i)\<lparr>messages := messages (sessions s i) + of_nat (length ds)\<rparr>),
             sent := sent s @
               map (\<lambda>d. To_servers ('':'' @ me_id s @ '' ENCAP * SASL '' @ id_c (clients s source)
                     @ '' '' @ (if agent (sessions s i) \<noteq> [] then agent (sessions s i) else ''*'')
                     @ '' C '' @ d)) ds\<rparr>)"
  using assms
proof (induction ds arbitrary: s)
  case Nil
  then show ?case by simp
next
  case (Cons d ds)
  let ?pv = "[''AUTHENTICATE'', d]"
  let ?s1 = "s\<lparr>sessions := (sessions s)
                   (i := (sessions s i)\<lparr>messages := messages (sessions s i) + 1\<rparr>),
                sent := sent s @
                  [To_servers ('':'' @ me_id s @ '' ENCAP * SASL '' @ id_c (clients s source)
                     @ '' '' @ (if agent (sessions s i) \<noteq> [] then agent (sessions s i) else ''*'')
                     @ '' C '' @ d)]\<rparr>"
  from Cons.prems(5) have b: "\<not> SASL_MAX_MESSAGES < messages (sessions s i) + 1"
    by (simp add: msg_below)
  from Cons.prems(4) have n: "?pv ! 1 \<noteq> ''*''" by simp
  from mr_authenticate_relay [OF Cons.prems(1) n Cons.prems(2,3) b, of hs]
  have d1: "dispatch hs (AUTHENTICATE source ?pv) s = Some ?s1" by simp
  from Cons.prems(5) have u: "unat (messages (sessions s i) + 1) = unat (messages (sessions s i)) + 1"
    by (simp add: unat_word_ariths)
  have p: "HasCap (clients ?s1 source) CAP_SASL" "id_c (clients ?s1 source) \<noteq> []"
    "sasl_find_session (sessions ?s1) source = Some i" "\<forall>d\<in>set ds. d \<noteq> ''*''"
    "unat (messages (sessions ?s1 i)) + length ds \<le> 20"
    using Cons.prems u by (simp_all add: find_session_messages)
  note r = Cons.IH [OF p]
  have e: "?s1\<lparr>sessions := (sessions ?s1)
                (i := (sessions ?s1 i)\<lparr>messages := messages (sessions ?s1 i) + of_nat (length ds)\<rparr>),
             sent := sent ?s1 @
               map (\<lambda>d. To_servers ('':'' @ me_id ?s1 @ '' ENCAP * SASL '' @ id_c (clients ?s1 source)
                     @ '' '' @ (if agent (sessions ?s1 i) \<noteq> [] then agent (sessions ?s1 i) else ''*'')
                     @ '' C '' @ d)) ds\<rparr>
     = s\<lparr>sessions := (sessions s)
                (i := (sessions s i)\<lparr>messages := messages (sessions s i) + of_nat (length (d # ds))\<rparr>),
             sent := sent s @
               map (\<lambda>d. To_servers ('':'' @ me_id s @ '' ENCAP * SASL '' @ id_c (clients s source)
                     @ '' '' @ (if agent (sessions s i) \<noteq> [] then agent (sessions s i) else ''*'')
                     @ '' C '' @ d)) (d # ds)\<rparr>"
    by (simp add: fun_eq_iff add.assoc add.commute)
  have "run hs (map (\<lambda>d. AUTHENTICATE source [''AUTHENTICATE'', d]) (d # ds)) s =
      run hs (map (\<lambda>d. AUTHENTICATE source [''AUTHENTICATE'', d]) ds) ?s1"
    using d1 by simp
  with r e show ?case by (simp only:)
qed

text \<open>
  Claim C2, as the code has it. Take a client with the \<open>sasl\<close> capability and a UID
  that has a session, and let \<open>k\<close> be one more than the session's \<open>messages\<close>
  counter: a new session starts at 0 and each relayed continuation adds one, so the
  message at hand is the \<open>k\<close>-th continuation of the session. Up to the 20th, a continuation is relayed to services
  as a \<open>C\<close> message, to the bound agent or to \<open>*\<close>, and the session stays with the
  counter at \<open>k\<close>. The 21st sends numeric 904 to the client, with the text
  \<open><nick> :SASL message limit exceeded\<close>, then a \<open>D A\<close> message to services when an
  agent is bound, and clears the session.
\<close>


theorem authenticate_message_budget:
  assumes "HasCap (clients s source) CAP_SASL" "2 \<le> length parv" "parv ! 1 \<noteq> ''*''"
    and "id_c (clients s source) \<noteq> []"
    and "sasl_find_session (sessions s) source = Some i"
    and "unat (messages (sessions s i)) + 1 = k"
  shows "(k \<le> 20 \<longrightarrow>
      mr_authenticate hs source parv s =
        Some (s\<lparr>sessions := (sessions s)
                   (i := (sessions s i)\<lparr>messages := messages (sessions s i) + 1\<rparr>),
                sent := sent s @
                  [To_servers ('':'' @ me_id s @ '' ENCAP * SASL '' @ id_c (clients s source)
                     @ '' '' @ (if agent (sessions s i) \<noteq> [] then agent (sessions s i) else ''*'')
                     @ '' C '' @ parv ! 1)]\<rparr>))
   \<and> (k = 21 \<longrightarrow>
      mr_authenticate hs source parv s =
        Some (s\<lparr>sessions := (sessions s)(i := zero_session),
                sent := sent s @
                  To_numeric source 904 (name (clients s source) @ '' :SASL message limit exceeded'')
                  # (if agent (sessions s i) \<noteq> []
                     then [To_servers ('':'' @ me_id s @ '' ENCAP * SASL ''
                             @ id_c (clients s source) @ '' '' @ agent (sessions s i) @ '' D A'')]
                     else [])\<rparr>))"
proof (intro conjI impI)
  assume "k \<le> 20"
  with assms(6) have "\<not> SASL_MAX_MESSAGES < messages (sessions s i) + 1"
    by (simp add: msg_below)
  from mr_authenticate_relay [OF assms(1,3,4,5) this]
  show "mr_authenticate hs source parv s =
        Some (s\<lparr>sessions := (sessions s)
                   (i := (sessions s i)\<lparr>messages := messages (sessions s i) + 1\<rparr>),
                sent := sent s @
                  [To_servers ('':'' @ me_id s @ '' ENCAP * SASL '' @ id_c (clients s source)
                     @ '' '' @ (if agent (sessions s i) \<noteq> [] then agent (sessions s i) else ''*'')
                     @ '' C '' @ parv ! 1)]\<rparr>)" .
next
  assume "k = 21"
  with assms(6) have "SASL_MAX_MESSAGES < messages (sessions s i) + 1"
    by (simp add: msg_above)
  from mr_authenticate_exceeded [OF assms(1,3,4,5) this]
  show "mr_authenticate hs source parv s =
        Some (s\<lparr>sessions := (sessions s)(i := zero_session),
                sent := sent s @
                  To_numeric source 904 (name (clients s source) @ '' :SASL message limit exceeded'')
                  # (if agent (sessions s i) \<noteq> []
                     then [To_servers ('':'' @ me_id s @ '' ENCAP * SASL ''
                             @ id_c (clients s source) @ '' '' @ agent (sessions s i) @ '' D A'')]
                     else [])\<rparr>)" .
qed

text \<open>Alice's 20th continuation is relayed; her 21st is answered with 904.\<close>

theorem authenticate_message_budget_witness:
  "unat (messages (sessions (ex_ircd (ex_one (ex_session ''00SAAAAAB'' 19 0))) 0)) + 1 = 20
   \<and> mr_authenticate ex_sizes 1 [''AUTHENTICATE'', ''dGVzdA=='']
        (ex_ircd (ex_one (ex_session ''00SAAAAAB'' 19 0)))
      = Some ((ex_ircd (ex_one (ex_session ''00SAAAAAB'' 20 0)))
          \<lparr>sent := [To_servers '':001 ENCAP * SASL 001AAAAAA 00SAAAAAB C dGVzdA=='']\<rparr>)
   \<and> unat (messages (sessions (ex_ircd (ex_one (ex_session ''00SAAAAAB'' 20 0))) 0)) + 1 = 21
   \<and> mr_authenticate ex_sizes 1 [''AUTHENTICATE'', ''dGVzdA=='']
        (ex_ircd (ex_one (ex_session ''00SAAAAAB'' 20 0)))
      = Some ((ex_ircd ex_empty)
          \<lparr>sent := [To_numeric 1 904 ''alice :SASL message limit exceeded'',
                     To_servers '':001 ENCAP * SASL 001AAAAAA 00SAAAAAB D A'']\<rparr>)"
proof -
  let ?pv = "[''AUTHENTICATE'', ''dGVzdA=='']"
  let ?s = "\<lambda>m. ex_ircd (ex_one (ex_session ''00SAAAAAB'' m 0))"
  have f: "sasl_find_session (sessions (?s m)) 1 = Some 0" for m
    by (simp add: ex_ircd_def find_ex_one)
  have h: "HasCap (clients (?s m) 1) CAP_SASL" "2 \<le> length ?pv" "?pv ! 1 \<noteq> ''*''"
    "id_c (clients (?s m) 1) \<noteq> []" for m
    by (simp_all add: ex_defs)
  have k20: "unat (messages (sessions (?s 19) 0)) + 1 = 20"
    and k21: "unat (messages (sessions (?s 20) 0)) + 1 = 21"
    by (simp_all add: ex_defs)
  have a: "mr_authenticate ex_sizes 1 ?pv (?s 19)
      = Some ((?s 20)\<lparr>sent := [To_servers '':001 ENCAP * SASL 001AAAAAA 00SAAAAAB C dGVzdA=='']\<rparr>)"
    using authenticate_message_budget [where hs = ex_sizes and s = "?s 19", OF h f k20]
    by (simp add: ex_defs fun_eq_iff)
  have b: "mr_authenticate ex_sizes 1 ?pv (?s 20)
      = Some ((ex_ircd ex_empty)
          \<lparr>sent := [To_numeric 1 904 ''alice :SASL message limit exceeded'',
                     To_servers '':001 ENCAP * SASL 001AAAAAA 00SAAAAAB D A'']\<rparr>)"
    using authenticate_message_budget [where hs = ex_sizes and s = "?s 20", OF h f k21]
    by (simp add: ex_defs ex_empty_def fun_eq_iff)
  from k20 a k21 b show ?thesis by blast
qed

text \<open>
  The claim as it was stated fails on the text of the numeric: alice's session has
  counted 20 continuations, and all that the 21st makes the module send is 904 with
  \<open>alice :SASL message limit exceeded\<close> and the abort to the agent; no numeric with
  the text \<open>:SASL authentication failed\<close> is sent.
\<close>

theorem authenticate_budget_text_differs:
  "messages (sessions (ex_ircd (ex_one (ex_session ''00SAAAAAB'' 20 0))) 0) = 20
   \<and> map_option sent
        (mr_authenticate ex_sizes 1 [''AUTHENTICATE'', ''dGVzdA=='']
           (ex_ircd (ex_one (ex_session ''00SAAAAAB'' 20 0))))
      = Some [To_numeric 1 904 ''alice :SASL message limit exceeded'',
              To_servers '':001 ENCAP * SASL 001AAAAAA 00SAAAAAB D A'']"
proof -
  let ?pv = "[''AUTHENTICATE'', ''dGVzdA=='']"
  let ?s = "ex_ircd (ex_one (ex_session ''00SAAAAAB'' 20 0))"
  have f: "sasl_find_session (sessions ?s) 1 = Some 0"
    by (simp add: ex_ircd_def find_ex_one)
  have h: "HasCap (clients ?s 1) CAP_SASL" "?pv ! 1 \<noteq> ''*''" "id_c (clients ?s 1) \<noteq> []"
    by (simp_all add: ex_defs)
  have x: "SASL_MAX_MESSAGES < messages (sessions ?s 0) + 1"
    by (simp add: SASL_MAX_MESSAGES_def ex_defs)
  show ?thesis
    using mr_authenticate_exceeded [where hs = ex_sizes, OF h f x]
    by (simp add: ex_defs)
qed

text \<open>
  Claim C7. Every one of the 256 slots holds a client, and a client with the \<open>sasl\<close>
  capability that has no session sends AUTHENTICATE with a mechanism. Provided the
  client has a UID or the UID generator comes to an unused id, the handler returns:
  it has sent numeric 904 (\<open><nick> :SASL authentication failed\<close>) to the client and
  nothing else, so no message to services; the session table is unchanged; and the
  client's connection is untouched.
\<close>


theorem authenticate_table_full:
  assumes "HasCap (clients s source) CAP_SASL" "2 \<le> length parv" "parv ! 1 \<noteq> ''*''"
    and "\<forall>i<SASL_MAX_SESSIONS. client (sessions s i) \<noteq> NULL"
    and "sasl_find_session (sessions s) source = None"
    and "id_c (clients s source) \<noteq> [] \<or> hash_find_id s (uid_seq s (uid_pos s + k)) = NULL"
  shows "\<exists>s'. mr_authenticate hs source parv s = Some s'
      \<and> sent s' = sent s @
            [To_numeric source 904 (name (clients s source) @ '' :SASL authentication failed'')]
      \<and> sessions s' = sessions s
      \<and> connection (clients s' source) = connection (clients s source)"
proof -
  from assign_uid_returns [OF assms(6)]
  obtain s1 where u: "assign_uid hs source s = Some s1" by blast
  note fr = assign_uid_frame [OF u]
  from assms(4) fr(1) have "sasl_new_session source s1 = (None, s1)"
    by (simp add: new_session_full)
  with assms(1,3,5) u fr(1,2) fr(6,7) [of source] show ?thesis
    by (simp add: mr_authenticate_def sendto_one_numeric_def)
qed

text \<open>
  A full table, and carol, who has no UID yet: the first id of the generator is
  alice's, the second is free.
\<close>

theorem authenticate_table_full_witness:
  "sasl_find_session (sessions (ex_ircd ex_full)) 4 = None
   \<and> map_option sent
        (mr_authenticate ex_sizes 4 [''AUTHENTICATE'', ''PLAIN''] (ex_ircd ex_full))
      = Some [To_numeric 4 904 ''carol :SASL authentication failed'']
   \<and> map_option sessions
        (mr_authenticate ex_sizes 4 [''AUTHENTICATE'', ''PLAIN''] (ex_ircd ex_full))
      = Some ex_full"
proof -
  let ?pv = "[''AUTHENTICATE'', ''PLAIN'']"
  let ?s = "ex_ircd ex_full"
  have f: "sasl_find_session (sessions ?s) 4 = None"
    by (simp add: ex_ircd_def find_session_None ex_full_def)
  have o: "\<forall>i<SASL_MAX_SESSIONS. client (sessions ?s i) \<noteq> NULL"
    by (simp add: ex_ircd_def ex_full_def)
  have h: "HasCap (clients ?s 4) CAP_SASL" "2 \<le> length ?pv" "?pv ! 1 \<noteq> ''*''"
    by (simp_all add: ex_defs)
  have u: "id_c (clients ?s 4) \<noteq> [] \<or> hash_find_id ?s (uid_seq ?s (uid_pos ?s + 1)) = NULL"
    by (simp add: ex_defs)
  from authenticate_table_full [where hs = ex_sizes, OF h o f u]
  obtain s' where "mr_authenticate ex_sizes 4 ?pv ?s = Some s'"
    and "sent s' = sent ?s @ [To_numeric 4 904 (name (clients ?s 4) @ '' :SASL authentication failed'')]"
    and "sessions s' = sessions ?s"
    by blast
  with f show ?thesis by (simp add: ex_defs)
qed

section \<open>What an event can do to a slot\<close>


lemma new_session_Some:
  "sasl_new_session c s = (Some i, s2) \<Longrightarrow>
     client (sessions s i) = NULL \<and>
     s2 = s\<lparr>sessions := (sessions s)(i := zero_session\<lparr>client := c, start_time := mono_sec s\<rparr>)\<rparr>"
  using find_from_Some [of "sessions s" NULL 0 i]
  by (auto simp: sasl_new_session_def new_from_find_from split: option.splits)

lemma new_session_None:
  "sasl_new_session c s = (None, s2) \<Longrightarrow> s2 = s"
  by (auto simp: sasl_new_session_def split: option.splits)

lemma slot_change_refl [simp]: "slot_change hs a x x"
  by (simp add: slot_change_def)

lemma slot_change_zero [simp]: "slot_change hs a x zero_session"
  by (simp add: slot_change_def)

lemma slot_change_messages:
  "2 \<le> length parv \<Longrightarrow> parv ! 1 \<noteq> ''*'' \<Longrightarrow>
   slot_change hs (AUTHENTICATE source parv) x (x\<lparr>messages := messages x + 1\<rparr>)"
  unfolding slot_change_def by blast

lemma slot_change_failures:
  "4 \<le> length parv \<Longrightarrow> first_char (parv ! 3) = CHR ''D'' \<Longrightarrow>
   slot_change hs (SASL source parv) x (x\<lparr>failures := failures x + 1\<rparr>)"
  unfolding slot_change_def by blast

lemma slot_change_new:
  "client x = NULL \<Longrightarrow> slot_change hs a x (zero_session\<lparr>client := c, start_time := t\<rparr>)"
  unfolding slot_change_def by blast

lemma exit_hook_slot:
  "slot_change hs a (sessions s j) (sessions (sasl_client_exit_hook c s) j)"
  by (simp add: sasl_client_exit_hook_def sasl_clear_session_def sendto_servers_def
      split: option.splits)

lemma mr_authenticate_slot:
  assumes "mr_authenticate hs source parv s = Some s'" "2 \<le> length parv"
  shows "slot_change hs (AUTHENTICATE source parv) (sessions s j) (sessions s' j)"
proof (cases "\<not> HasCap (clients s source) CAP_SASL \<or> parv ! 1 = ''*''")
  case True
  with assms show ?thesis
    by (auto simp: mr_authenticate_def sasl_clear_session_def sendto_servers_def
        sendto_one_numeric_def split: option.splits if_splits)
next
  case False
  with assms obtain s1 where u: "assign_uid hs source s = Some s1"
    by (auto simp: mr_authenticate_def split: option.splits)
  note fr = assign_uid_frame(1) [OF u]
  show ?thesis
  proof (cases "sasl_find_session (sessions s1) source")
    case None
    obtain r s2 where n: "sasl_new_session source s1 = (r, s2)" by (cases "sasl_new_session source s1")
    show ?thesis
    proof (cases r)
      case None
      with n have "s2 = s1" by (simp add: new_session_None)
      with assms False u n None \<open>sasl_find_session (sessions s1) source = None\<close> fr show ?thesis
        by (auto simp: mr_authenticate_def sendto_one_numeric_def)
    next
      case (Some i)
      with n new_session_Some [of source s1 i s2]
      have c: "client (sessions s1 i) = NULL"
        and e: "s2 = s1\<lparr>sessions := (sessions s1)(i := zero_session\<lparr>client := source, start_time := mono_sec s1\<rparr>)\<rparr>"
        by simp_all
      from assms False u n Some \<open>sasl_find_session (sessions s1) source = None\<close>
      have "sessions s' = sessions s2"
        by (auto simp: mr_authenticate_def sendto_servers_def)
      with e c fr show ?thesis
        by (simp add: slot_change_new)
    qed
  next
    case (Some i)
    with assms False u fr show ?thesis
      by (auto simp: mr_authenticate_def Let_def sendto_servers_def sendto_one_numeric_def
          sasl_clear_session_def slot_change_messages split: if_splits)
  qed
qed

lemma me_sasl_slot:
  "4 \<le> length parv \<Longrightarrow>
   slot_change hs (SASL source parv) (sessions s j) (sessions (me_sasl hs source parv s) j)"
  by (auto simp: me_sasl_def Let_def sasl_done_success_def sasl_done_failure_def
      sendto_one_numeric_def sendto_one_def sasl_clear_session_def cap_register_def
      cap_unregister_def strlcpy_def slot_change_def split: option.splits if_splits)

lemma dispatch_slot_change:
  "dispatch hs a s = Some s' \<Longrightarrow> slot_change hs a (sessions s j) (sessions s' j)"
proof (cases a)
  case (AUTHENTICATE source parv)
  assume "dispatch hs a s = Some s'"
  with AUTHENTICATE show ?thesis
    by (auto simp: mr_authenticate_slot split: if_splits)
next
  case (SASL source parv)
  assume "dispatch hs a s = Some s'"
  with SASL show ?thesis
    using me_sasl_slot [of parv hs source s j] by auto
next
  case (SVSLOGIN source parv)
  assume "dispatch hs a s = Some s'"
  with SVSLOGIN show ?thesis
    by (auto simp: me_svslogin_def Let_def)
next
  case (MECHLIST source parv)
  assume "dispatch hs a s = Some s'"
  with MECHLIST show ?thesis
    by (auto simp: me_mechlist_def Let_def cap_register_def cap_unregister_def)
next
  case (Client_exit c)
  assume "dispatch hs a s = Some s'"
  with Client_exit show ?thesis
    by (auto simp: exit_hook_slot)
next
  case Module_init
  assume "dispatch hs a s = Some s'"
  with Module_init show ?thesis
    by (auto simp: init_handler_def cap_register_def)
next
  case Module_exit
  assume "dispatch hs a s = Some s'"
  with Module_exit show ?thesis
    by (auto simp: exit_handler_def cap_unregister_def)
next
  case (Host f)
  assume "dispatch hs a s = Some s'"
  with Host show ?thesis by auto
qed

lemma slot_change_complete:
  "slot_change hs a x y \<Longrightarrow> \<not> complete x \<Longrightarrow> \<not> complete y"
  by (auto simp: slot_change_def zero_session_def)

lemma slot_change_live_agent:
  assumes "slot_change hs a x y" "client x \<noteq> NULL" "client y \<noteq> NULL" "agent x \<noteq> []"
  shows "agent y = agent x \<and> client y = client x"
  using assms by (auto simp: slot_change_def zero_session_def)

lemma slot_change_binds:
  assumes "slot_change hs a x y" "agent y \<noteq> []" "agent y \<noteq> agent x"
  shows "agent x = [] \<and>
     (\<exists>source parv. a = SASL source parv \<and> 5 \<le> length parv
        \<and> first_char (parv ! 3) = CHR ''C''
        \<and> agent y = strlcpy [] (parv ! 1) (IDLEN hs + 1))"
  using assms by (auto simp: slot_change_def zero_session_def)

lemma run_complete:
  "run hs acts s = Some s' \<Longrightarrow> \<not> complete (sessions s i) \<Longrightarrow> \<not> complete (sessions s' i)"
proof (induction acts arbitrary: s)
  case Nil
  then show ?case by simp
next
  case (Cons a acts)
  from Cons.prems(1) obtain s1 where d: "dispatch hs a s = Some s1" and r: "run hs acts s1 = Some s'"
    by (auto split: option.splits)
  from dispatch_slot_change [OF d] Cons.prems(2) have "\<not> complete (sessions s1 i)"
    by (rule slot_change_complete)
  with Cons.IH r show ?case by blast
qed

lemma messages_only_by_continuation:
  assumes "dispatch hs a s = Some s'"
    and "client (sessions s j) \<noteq> NULL" "client (sessions s' j) \<noteq> NULL"
    and "messages (sessions s' j) \<noteq> messages (sessions s j)"
  shows "\<exists>source parv. a = AUTHENTICATE source parv \<and> 2 \<le> length parv \<and> parv ! 1 \<noteq> ''*''
           \<and> messages (sessions s' j) = messages (sessions s j) + 1"
  using dispatch_slot_change [OF assms(1), of j] assms(2-4)
  by (auto simp: slot_change_def zero_session_def)

lemma lifetime_agent:
  "session_lives hs i acts s \<Longrightarrow> run hs acts s = Some s' \<Longrightarrow>
   client (sessions s i) \<noteq> NULL \<Longrightarrow> agent (sessions s i) \<noteq> [] \<Longrightarrow>
   agent (sessions s' i) = agent (sessions s i) \<and> client (sessions s' i) = client (sessions s i)"
proof (induction acts arbitrary: s)
  case Nil
  then show ?case by simp
next
  case (Cons a acts)
  from Cons.prems(2) obtain s1 where d: "dispatch hs a s = Some s1" and r: "run hs acts s1 = Some s'"
    by (auto split: option.splits)
  from Cons.prems(1) d have l: "client (sessions s1 i) \<noteq> NULL" and ls: "session_lives hs i acts s1"
    by simp_all
  from slot_change_live_agent [OF dispatch_slot_change [OF d] Cons.prems(3) l Cons.prems(4)]
  have e: "agent (sessions s1 i) = agent (sessions s i)" "client (sessions s1 i) = client (sessions s i)"
    by simp_all
  with Cons.IH [OF ls r] Cons.prems(3,4) show ?case by simp
qed

section \<open>A run of the happy path, step by step\<close>


lemma new_ex_empty: "sasl_new_session_from ex_empty 0 = Some 0"
  by (simp add: sasl_new_session_from.simps [of _ 0] SASL_MAX_SESSIONS_def ex_empty_def
      zero_session_def)

lemma step_open:
  "dispatch ex_sizes (AUTHENTICATE 1 [''AUTHENTICATE'', ''PLAIN'']) (ex_ircd ex_empty) =
     Some ((ex_ircd (ex_one (ex_session [] 0 0)))
       \<lparr>sent := [To_servers '':001 ENCAP * SASL 001AAAAAA * H example.org 192.0.2.1'',
                  To_servers '':001 ENCAP * SASL 001AAAAAA * S PLAIN'']\<rparr>)"
proof -
  have "sasl_find_session (sessions (ex_ircd ex_empty)) 1 = None"
    by (simp add: ex_ircd_def find_ex_empty)
  moreover have "assign_uid ex_sizes 1 (ex_ircd ex_empty) = Some (ex_ircd ex_empty)"
    by (simp add: assign_uid_def ex_defs)
  moreover have "sasl_new_session 1 (ex_ircd ex_empty) =
      (Some 0, ex_ircd (ex_one (ex_session [] 0 0)))"
    by (simp add: sasl_new_session_def ex_ircd_def new_ex_empty)
      (simp add: ex_one_def ex_session_def ex_empty_def zero_session_def fun_eq_iff)
  ultimately show ?thesis
    by (simp add: mr_authenticate_def sendto_servers_def ex_defs)
qed

lemma step_bind:
  "dispatch ex_sizes (SASL 2 [''SASL'', ''00SAAAAAB'', ''001AAAAAA'', ''C'', ''+''])
       ((ex_ircd (ex_one (ex_session [] m f)))\<lparr>sent := l\<rparr>) =
     Some ((ex_ircd (ex_one (ex_session ''00SAAAAAB'' m f)))\<lparr>sent := l @ [To_one 1 ''AUTHENTICATE +'']\<rparr>)"
proof -
  have "sasl_find_session (sessions ((ex_ircd (ex_one (ex_session [] m f)))\<lparr>sent := l\<rparr>)) 1 = Some 0"
    by (simp add: ex_ircd_def find_ex_one)
  then show ?thesis
    by (simp add: me_sasl_def Let_def sendto_one_def strlcpy_def ex_defs fun_eq_iff)
qed

lemma step_other_agent:
  "dispatch ex_sizes (SASL 2 [''SASL'', ''00SAAAAAC'', ''001AAAAAA'', ''C'', ''+''])
       ((ex_ircd (ex_one (ex_session ''00SAAAAAB'' m f)))\<lparr>sent := l\<rparr>) =
     Some ((ex_ircd (ex_one (ex_session ''00SAAAAAB'' m f)))\<lparr>sent := l @ [To_one 1 ''AUTHENTICATE +'']\<rparr>)"
proof -
  have "sasl_find_session (sessions ((ex_ircd (ex_one (ex_session ''00SAAAAAB'' m f)))\<lparr>sent := l\<rparr>)) 1 = Some 0"
    by (simp add: ex_ircd_def find_ex_one)
  then show ?thesis
    by (simp add: me_sasl_def Let_def sendto_one_def strlcpy_def ex_defs fun_eq_iff)
qed

lemma step_cont:
  assumes "unat m < 20"
  shows "dispatch ex_sizes (AUTHENTICATE 1 [''AUTHENTICATE'', ''dGVzdA=='']) 
       ((ex_ircd (ex_one (ex_session ''00SAAAAAB'' m f)))\<lparr>sent := l\<rparr>) =
     Some ((ex_ircd (ex_one (ex_session ''00SAAAAAB'' (m + 1) f)))
        \<lparr>sent := l @ [To_servers '':001 ENCAP * SASL 001AAAAAA 00SAAAAAB C dGVzdA=='']\<rparr>)"
proof -
  let ?s = "(ex_ircd (ex_one (ex_session ''00SAAAAAB'' m f)))\<lparr>sent := l\<rparr>"
  have f: "sasl_find_session (sessions ?s) 1 = Some 0"
    by (simp add: ex_ircd_def find_ex_one)
  have h: "HasCap (clients ?s 1) CAP_SASL" "[''AUTHENTICATE'', ''dGVzdA==''] ! 1 \<noteq> ''*''"
    "id_c (clients ?s 1) \<noteq> []"
    by (simp_all add: ex_defs)
  from assms have b: "\<not> SASL_MAX_MESSAGES < messages (sessions ?s 0) + 1"
    by (simp add: msg_below ex_defs)
  show ?thesis
    using mr_authenticate_relay [where hs = ex_sizes, OF h f b]
    by (simp add: ex_defs fun_eq_iff)
qed

lemma step_fail:
  assumes "unat f < 2"
  shows "dispatch ex_sizes (SASL 2 [''SASL'', ''00SAAAAAB'', ''001AAAAAA'', ''D'', ''F''])
       ((ex_ircd (ex_one (ex_session ag m f)))\<lparr>sent := l\<rparr>) =
     Some ((ex_ircd (ex_one (ex_session ag m (f + 1))))
        \<lparr>sent := l @ [To_numeric 1 904 ''alice :SASL authentication failed'']\<rparr>)"
proof -
  let ?s = "(ex_ircd (ex_one (ex_session ag m f)))\<lparr>sent := l\<rparr>"
  let ?pv = "[''SASL'', ''00SAAAAAB'', ''001AAAAAA'', ''D'', ''F'']"
  have fs: "sasl_find_session (sessions ?s) 1 = Some 0"
    by (simp add: ex_ircd_def find_ex_one)
  from assms have "\<not> 3 \<le> f + 1"
    by (simp add: word_le_nat_alt unat_word_ariths)
  moreover have "me_sasl ex_sizes 2 ?pv ?s = sasl_done_failure 1 (Some 0) ?s"
    using fs me_sasl_failure [of ?s ?pv 1 ex_sizes 2] by (simp add: ex_defs)
  ultimately show ?thesis
    by (simp add: sasl_done_failure_Some ex_defs fun_eq_iff)
qed

section \<open>Invariants of the session table\<close>

text \<open>
  Claim C6. Through any sequence of events during which slot \<open>i\<close> keeps a client (the
  lifetime of the session in it), a non-empty \<open>agent\<close> of the slot keeps its value, and
  the slot keeps its client. And whenever one event leaves in a slot a non-empty
  \<open>agent\<close> that was not there before, the field was empty before and the event is a
  SASL message of type \<open>C\<close> with data, whose agent argument (cut to \<open>IDLEN\<close>
  characters) is the new value.
\<close>

theorem agent_bound_once:
  "(session_lives hs i acts s \<and> run hs acts s = Some s'
      \<and> client (sessions s i) \<noteq> NULL \<and> agent (sessions s i) \<noteq> []
      \<longrightarrow> agent (sessions s' i) = agent (sessions s i)
          \<and> client (sessions s' i) = client (sessions s i))
   \<and> (dispatch hs a s = Some s1 \<and> agent (sessions s1 j) \<noteq> []
        \<and> agent (sessions s1 j) \<noteq> agent (sessions s j)
      \<longrightarrow> agent (sessions s j) = []
          \<and> (\<exists>source parv. a = SASL source parv \<and> 5 \<le> length parv
                \<and> first_char (parv ! 3) = CHR ''C''
                \<and> agent (sessions s1 j) = strlcpy [] (parv ! 1) (IDLEN hs + 1)))"
proof (intro conjI impI)
  assume "session_lives hs i acts s \<and> run hs acts s = Some s'
      \<and> client (sessions s i) \<noteq> NULL \<and> agent (sessions s i) \<noteq> []"
  then have e: "agent (sessions s' i) = agent (sessions s i) \<and> client (sessions s' i) = client (sessions s i)"
    using lifetime_agent [of hs i acts s s'] by blast
  from e show "agent (sessions s' i) = agent (sessions s i)" ..
  from e show "client (sessions s' i) = client (sessions s i)" ..
next
  assume "dispatch hs a s = Some s1 \<and> agent (sessions s1 j) \<noteq> []
        \<and> agent (sessions s1 j) \<noteq> agent (sessions s j)"
  then have b: "agent (sessions s j) = [] \<and>
     (\<exists>source parv. a = SASL source parv \<and> 5 \<le> length parv
        \<and> first_char (parv ! 3) = CHR ''C''
        \<and> agent (sessions s1 j) = strlcpy [] (parv ! 1) (IDLEN hs + 1))"
    using slot_change_binds [OF dispatch_slot_change, of hs a s s1 j] by blast
  from b show "agent (sessions s j) = []" ..
  from b show "\<exists>source parv. a = SASL source parv \<and> 5 \<le> length parv
        \<and> first_char (parv ! 3) = CHR ''C''
        \<and> agent (sessions s1 j) = strlcpy [] (parv ! 1) (IDLEN hs + 1)" ..
qed

text \<open>
  Alice's session, opened and then bound to agent \<open>00SAAAAAB\<close> by the first \<open>C\<close>
  message: a \<open>C\<close> message from another agent, a continuation and a failure leave the
  agent as it is.
\<close>

theorem agent_bound_once_witness:
  "session_lives ex_sizes 0
     [SASL 2 [''SASL'', ''00SAAAAAC'', ''001AAAAAA'', ''C'', ''+''],
      AUTHENTICATE 1 [''AUTHENTICATE'', ''dGVzdA==''],
      SASL 2 [''SASL'', ''00SAAAAAB'', ''001AAAAAA'', ''D'', ''F'']]
     ((ex_ircd (ex_one (ex_session ''00SAAAAAB'' 0 0)))\<lparr>sent := [To_one 1 ''AUTHENTICATE +'']\<rparr>)
   \<and> run ex_sizes
     [SASL 2 [''SASL'', ''00SAAAAAC'', ''001AAAAAA'', ''C'', ''+''],
      AUTHENTICATE 1 [''AUTHENTICATE'', ''dGVzdA==''],
      SASL 2 [''SASL'', ''00SAAAAAB'', ''001AAAAAA'', ''D'', ''F'']]
     ((ex_ircd (ex_one (ex_session ''00SAAAAAB'' 0 0)))\<lparr>sent := [To_one 1 ''AUTHENTICATE +'']\<rparr>)
     = Some ((ex_ircd (ex_one (ex_session ''00SAAAAAB'' 1 1)))
         \<lparr>sent := [To_one 1 ''AUTHENTICATE +'', To_one 1 ''AUTHENTICATE +'',
                    To_servers '':001 ENCAP * SASL 001AAAAAA 00SAAAAAB C dGVzdA=='',
                    To_numeric 1 904 ''alice :SASL authentication failed'']\<rparr>)
   \<and> agent (sessions ((ex_ircd (ex_one (ex_session ''00SAAAAAB'' 1 1)))
         \<lparr>sent := [To_one 1 ''AUTHENTICATE +'', To_one 1 ''AUTHENTICATE +'',
                    To_servers '':001 ENCAP * SASL 001AAAAAA 00SAAAAAB C dGVzdA=='',
                    To_numeric 1 904 ''alice :SASL authentication failed'']\<rparr>) 0)
       = ''00SAAAAAB''
   \<and> dispatch ex_sizes (SASL 2 [''SASL'', ''00SAAAAAB'', ''001AAAAAA'', ''C'', ''+''])
        ((ex_ircd (ex_one (ex_session [] 0 0)))\<lparr>sent := []\<rparr>)
       = Some ((ex_ircd (ex_one (ex_session ''00SAAAAAB'' 0 0)))
           \<lparr>sent := [To_one 1 ''AUTHENTICATE +'']\<rparr>)
   \<and> agent (sessions ((ex_ircd (ex_one (ex_session [] 0 0)))\<lparr>sent := []\<rparr>) 0) = []"
proof -
  let ?a0 = "SASL 2 [''SASL'', ''00SAAAAAB'', ''001AAAAAA'', ''C'', ''+'']"
  let ?a1 = "SASL 2 [''SASL'', ''00SAAAAAC'', ''001AAAAAA'', ''C'', ''+'']"
  let ?a2 = "AUTHENTICATE 1 [''AUTHENTICATE'', ''dGVzdA=='']"
  let ?a3 = "SASL 2 [''SASL'', ''00SAAAAAB'', ''001AAAAAA'', ''D'', ''F'']"
  let ?s0 = "(ex_ircd (ex_one (ex_session [] 0 0)))\<lparr>sent := []\<rparr>"
  let ?s1 = "(ex_ircd (ex_one (ex_session ''00SAAAAAB'' 0 0)))\<lparr>sent := [To_one 1 ''AUTHENTICATE +'']\<rparr>"
  let ?s2 = "(ex_ircd (ex_one (ex_session ''00SAAAAAB'' 0 0)))
      \<lparr>sent := [To_one 1 ''AUTHENTICATE +'', To_one 1 ''AUTHENTICATE +'']\<rparr>"
  let ?s3 = "(ex_ircd (ex_one (ex_session ''00SAAAAAB'' 1 0)))
      \<lparr>sent := [To_one 1 ''AUTHENTICATE +'', To_one 1 ''AUTHENTICATE +'',
                 To_servers '':001 ENCAP * SASL 001AAAAAA 00SAAAAAB C dGVzdA=='']\<rparr>"
  let ?s4 = "(ex_ircd (ex_one (ex_session ''00SAAAAAB'' 1 1)))
      \<lparr>sent := [To_one 1 ''AUTHENTICATE +'', To_one 1 ''AUTHENTICATE +'',
                 To_servers '':001 ENCAP * SASL 001AAAAAA 00SAAAAAB C dGVzdA=='',
                 To_numeric 1 904 ''alice :SASL authentication failed'']\<rparr>"
  have d0: "dispatch ex_sizes ?a0 ?s0 = Some ?s1"
    using step_bind [where m = 0 and f = 0 and l = "[]"] by simp
  have d1: "dispatch ex_sizes ?a1 ?s1 = Some ?s2"
    using step_other_agent [where m = 0 and f = 0 and l = "[To_one 1 ''AUTHENTICATE +'']"] by simp
  have d2: "dispatch ex_sizes ?a2 ?s2 = Some ?s3"
    using step_cont [where m = 0 and f = 0
        and l = "[To_one 1 ''AUTHENTICATE +'', To_one 1 ''AUTHENTICATE +'']"]
    by simp
  have d3: "dispatch ex_sizes ?a3 ?s3 = Some ?s4"
    using step_fail [where f = 0 and ag = "''00SAAAAAB''" and m = 1 and l =
        "[To_one 1 ''AUTHENTICATE +'', To_one 1 ''AUTHENTICATE +'',
          To_servers '':001 ENCAP * SASL 001AAAAAA 00SAAAAAB C dGVzdA=='']"]
    by simp
  have c: "client (sessions ?s1 0) \<noteq> NULL" "client (sessions ?s2 0) \<noteq> NULL"
    "client (sessions ?s3 0) \<noteq> NULL" "client (sessions ?s4 0) \<noteq> NULL"
    by (simp_all add: ex_defs)
  have g: "agent (sessions ?s1 0) \<noteq> []" "agent (sessions ?s1 0) \<noteq> agent (sessions ?s0 0)"
    "agent (sessions ?s1 0) = ''00SAAAAAB''"
    by (simp_all add: ex_defs)
  have l: "session_lives ex_sizes 0 [?a1, ?a2, ?a3] ?s1"
    by (simp only: session_lives.simps d1 d2 d3 c option.case simp_thms)
  have r: "run ex_sizes [?a1, ?a2, ?a3] ?s1 = Some ?s4"
    by (simp only: run.simps d1 d2 d3 option.case)
  note th = agent_bound_once [where hs = ex_sizes and i = 0 and acts = "[?a1, ?a2, ?a3]"
      and s = ?s1 and s' = ?s4]
  from th [THEN conjunct1] l r c(1) g(1)
  have "agent (sessions ?s4 0) = agent (sessions ?s1 0)"
    by blast
  with g(3) have e: "agent (sessions ?s4 0) = ''00SAAAAAB''"
    by (simp only:)
  note th2 = agent_bound_once [where hs = ex_sizes and a = ?a0 and s = ?s0 and ?s1.0 = ?s1
      and j = 0]
  from th2 [THEN conjunct2] d0 g(1,2)
  have "agent (sessions ?s0 0) = []"
    by blast
  with e have "agent (sessions ?s4 0) = ''00SAAAAAB''" and "agent (sessions ?s0 0) = []"
    by blast+
  with l r d0 show ?thesis by blast
qed

text \<open>
  Claim C10. Start from the table as the module is loaded, every slot zero, and let
  any sequence of events run. In the state reached, a slot that holds a client has
  \<open>complete = False\<close>: the success branch sets the mark and zeroes the slot in the
  same call, and nothing else writes it.
\<close>

theorem live_session_never_complete:
  assumes "\<forall>j<SASL_MAX_SESSIONS. sessions s0 j = zero_session"
    and "run hs acts s0 = Some s"
    and "i < SASL_MAX_SESSIONS" "client (sessions s i) \<noteq> NULL"
  shows "\<not> complete (sessions s i)"
proof -
  from assms(1,3) have "\<not> complete (sessions s0 i)"
    by (simp add: zero_session_def)
  with assms(2) show ?thesis by (rule run_complete)
qed

text \<open>
  Alice opens a session, the agent answers, she sends her data and services refuse
  them: her session is there, and not complete.
\<close>

theorem live_session_never_complete_witness:
  "run ex_sizes
     [AUTHENTICATE 1 [''AUTHENTICATE'', ''PLAIN''],
      SASL 2 [''SASL'', ''00SAAAAAB'', ''001AAAAAA'', ''C'', ''+''],
      AUTHENTICATE 1 [''AUTHENTICATE'', ''dGVzdA==''],
      SASL 2 [''SASL'', ''00SAAAAAB'', ''001AAAAAA'', ''D'', ''F'']]
     (ex_ircd ex_empty)
     = Some ((ex_ircd (ex_one (ex_session ''00SAAAAAB'' 1 1)))
         \<lparr>sent := [To_servers '':001 ENCAP * SASL 001AAAAAA * H example.org 192.0.2.1'',
                    To_servers '':001 ENCAP * SASL 001AAAAAA * S PLAIN'',
                    To_one 1 ''AUTHENTICATE +'',
                    To_servers '':001 ENCAP * SASL 001AAAAAA 00SAAAAAB C dGVzdA=='',
                    To_numeric 1 904 ''alice :SASL authentication failed'']\<rparr>)
   \<and> client (sessions ((ex_ircd (ex_one (ex_session ''00SAAAAAB'' 1 1)))
         \<lparr>sent := [To_servers '':001 ENCAP * SASL 001AAAAAA * H example.org 192.0.2.1'',
                    To_servers '':001 ENCAP * SASL 001AAAAAA * S PLAIN'',
                    To_one 1 ''AUTHENTICATE +'',
                    To_servers '':001 ENCAP * SASL 001AAAAAA 00SAAAAAB C dGVzdA=='',
                    To_numeric 1 904 ''alice :SASL authentication failed'']\<rparr>) 0) = 1
   \<and> \<not> complete (sessions ((ex_ircd (ex_one (ex_session ''00SAAAAAB'' 1 1)))
         \<lparr>sent := [To_servers '':001 ENCAP * SASL 001AAAAAA * H example.org 192.0.2.1'',
                    To_servers '':001 ENCAP * SASL 001AAAAAA * S PLAIN'',
                    To_one 1 ''AUTHENTICATE +'',
                    To_servers '':001 ENCAP * SASL 001AAAAAA 00SAAAAAB C dGVzdA=='',
                    To_numeric 1 904 ''alice :SASL authentication failed'']\<rparr>) 0)"
proof -
  let ?a1 = "AUTHENTICATE 1 [''AUTHENTICATE'', ''PLAIN'']"
  let ?a2 = "SASL 2 [''SASL'', ''00SAAAAAB'', ''001AAAAAA'', ''C'', ''+'']"
  let ?a3 = "AUTHENTICATE 1 [''AUTHENTICATE'', ''dGVzdA=='']"
  let ?a4 = "SASL 2 [''SASL'', ''00SAAAAAB'', ''001AAAAAA'', ''D'', ''F'']"
  let ?l1 = "[To_servers '':001 ENCAP * SASL 001AAAAAA * H example.org 192.0.2.1'',
              To_servers '':001 ENCAP * SASL 001AAAAAA * S PLAIN'']"
  let ?l2 = "[To_servers '':001 ENCAP * SASL 001AAAAAA * H example.org 192.0.2.1'',
              To_servers '':001 ENCAP * SASL 001AAAAAA * S PLAIN'',
              To_one 1 ''AUTHENTICATE +'']"
  let ?l3 = "[To_servers '':001 ENCAP * SASL 001AAAAAA * H example.org 192.0.2.1'',
              To_servers '':001 ENCAP * SASL 001AAAAAA * S PLAIN'',
              To_one 1 ''AUTHENTICATE +'',
              To_servers '':001 ENCAP * SASL 001AAAAAA 00SAAAAAB C dGVzdA=='']"
  let ?l4 = "[To_servers '':001 ENCAP * SASL 001AAAAAA * H example.org 192.0.2.1'',
              To_servers '':001 ENCAP * SASL 001AAAAAA * S PLAIN'',
              To_one 1 ''AUTHENTICATE +'',
              To_servers '':001 ENCAP * SASL 001AAAAAA 00SAAAAAB C dGVzdA=='',
              To_numeric 1 904 ''alice :SASL authentication failed'']"
  let ?s0 = "ex_ircd ex_empty"
  let ?s1 = "(ex_ircd (ex_one (ex_session [] 0 0)))\<lparr>sent := ?l1\<rparr>"
  let ?s2 = "(ex_ircd (ex_one (ex_session ''00SAAAAAB'' 0 0)))\<lparr>sent := ?l2\<rparr>"
  let ?s3 = "(ex_ircd (ex_one (ex_session ''00SAAAAAB'' 1 0)))\<lparr>sent := ?l3\<rparr>"
  let ?s4 = "(ex_ircd (ex_one (ex_session ''00SAAAAAB'' 1 1)))\<lparr>sent := ?l4\<rparr>"
  have d1: "dispatch ex_sizes ?a1 ?s0 = Some ?s1"
    by (rule step_open)
  have d2: "dispatch ex_sizes ?a2 ?s1 = Some ?s2"
    using step_bind [where m = 0 and f = 0 and l = ?l1] by simp
  have d3: "dispatch ex_sizes ?a3 ?s2 = Some ?s3"
    using step_cont [where m = 0 and f = 0 and l = ?l2] by simp
  have d4: "dispatch ex_sizes ?a4 ?s3 = Some ?s4"
    using step_fail [where f = 0 and ag = "''00SAAAAAB''" and m = 1 and l = ?l3] by simp
  have r: "run ex_sizes [?a1, ?a2, ?a3, ?a4] ?s0 = Some ?s4"
    by (simp only: run.simps d1 d2 d3 d4 option.case)
  have z: "\<forall>j<SASL_MAX_SESSIONS. sessions ?s0 j = zero_session"
    by (simp add: ex_ircd_def ex_empty_def)
  have i: "(0::nat) < SASL_MAX_SESSIONS"
    by (simp add: SASL_MAX_SESSIONS_def)
  have c: "client (sessions ?s4 0) = 1"
    by (simp add: ex_defs)
  then have c': "client (sessions ?s4 0) \<noteq> NULL"
    by simp
  from live_session_never_complete [OF z r i c'] r c show ?thesis
    by blast
qed

end
